theory Spec2Isabelle
  imports Main "HOL-Library.Sublist"
begin

section \<open>Python values\<close>

text \<open>
  The program is \<^verbatim>\<open>src/app.py\<close>. A Python \<^verbatim>\<open>str\<close> is modelled as a \<^typ>\<open>string\<close> whose
  characters are the code points U+0000 to U+00FF, one \<^typ>\<open>char\<close> per code point, so that
  \<^term>\<open>length\<close> is Python's \<^verbatim>\<open>len\<close>. A string holding a code point beyond U+00FF is
  outside the model. The character classes below are Python's on that range.
\<close>

text \<open>
  The exceptions of the model. The first two are raised by the program's own expressions;
  \<^verbatim>\<open>IllegalCharacterError\<close> (openpyxl) and \<^verbatim>\<open>ValueError\<close> (pandas) are what writing a
  workbook can raise.
\<close>

datatype py_error = TypeError | ZeroDivisionError | IllegalCharacterError | ValueError

text \<open>
  \<^verbatim>\<open>c.isdigit()\<close> on one character: the decimal digits and the characters of numeric type
  Digit, which on this range are the superscripts U+00B2, U+00B3 and U+00B9.
\<close>

definition is_digit_char :: "char \<Rightarrow> bool" where
  "is_digit_char c = (c \<in> set ''0123456789'' \<or> c \<in> set [CHR 0xB2, CHR 0xB3, CHR 0xB9])"

text \<open>\<^verbatim>\<open>s.isdigit()\<close>: every character is a digit and there is at least one.\<close>

definition py_isdigit :: "string \<Rightarrow> bool" where
  "py_isdigit s = (s \<noteq> [] \<and> list_all is_digit_char s)"

text \<open>The characters \<^verbatim>\<open>strip()\<close> removes: those with \<^verbatim>\<open>isspace()\<close>.\<close>

definition is_space_char :: "char \<Rightarrow> bool" where
  "is_space_char c = (c \<in> set [CHR 0x09, CHR 0x0A, CHR 0x0B, CHR 0x0C, CHR 0x0D,
     CHR 0x1C, CHR 0x1D, CHR 0x1E, CHR 0x1F, CHR 0x20, CHR 0x85, CHR 0xA0])"

definition py_strip :: "string \<Rightarrow> string" where
  "py_strip s = rev (dropWhile is_space_char (rev (dropWhile is_space_char s)))"

text \<open>
  \<^verbatim>\<open>s.upper()\<close> maps each character on its own. U+00DF becomes \<^verbatim>\<open>SS\<close>. The upper-case
  forms of U+00B5 and U+00FF lie beyond U+00FF: strings holding them are outside the model,
  which leaves the two characters as they are.
\<close>

definition lower_chars :: string where
  "lower_chars = ''abcdefghijklmnopqrstuvwxyz'' @
     [CHR 0xE0, CHR 0xE1, CHR 0xE2, CHR 0xE3, CHR 0xE4, CHR 0xE5, CHR 0xE6, CHR 0xE7,
      CHR 0xE8, CHR 0xE9, CHR 0xEA, CHR 0xEB, CHR 0xEC, CHR 0xED, CHR 0xEE, CHR 0xEF,
      CHR 0xF0, CHR 0xF1, CHR 0xF2, CHR 0xF3, CHR 0xF4, CHR 0xF5, CHR 0xF6,
      CHR 0xF8, CHR 0xF9, CHR 0xFA, CHR 0xFB, CHR 0xFC, CHR 0xFD, CHR 0xFE]"

definition upper_chars :: string where
  "upper_chars = ''ABCDEFGHIJKLMNOPQRSTUVWXYZ'' @
     [CHR 0xC0, CHR 0xC1, CHR 0xC2, CHR 0xC3, CHR 0xC4, CHR 0xC5, CHR 0xC6, CHR 0xC7,
      CHR 0xC8, CHR 0xC9, CHR 0xCA, CHR 0xCB, CHR 0xCC, CHR 0xCD, CHR 0xCE, CHR 0xCF,
      CHR 0xD0, CHR 0xD1, CHR 0xD2, CHR 0xD3, CHR 0xD4, CHR 0xD5, CHR 0xD6,
      CHR 0xD8, CHR 0xD9, CHR 0xDA, CHR 0xDB, CHR 0xDC, CHR 0xDD, CHR 0xDE]"

definition upper_char :: "char \<Rightarrow> string" where
  "upper_char c =
     (if c = CHR 0xDF then ''SS''
      else case map_of (zip lower_chars upper_chars) c of Some u \<Rightarrow> [u] | None \<Rightarrow> [c])"

definition py_upper :: "string \<Rightarrow> string" where
  "py_upper s = concat (map upper_char s)"

text \<open>\<^verbatim>\<open>s[-4:]\<close> on a string: the last four characters, or all of a shorter string.\<close>

definition last4 :: "string \<Rightarrow> string" where
  "last4 s = drop (length s - 4) s"

text \<open>\<^verbatim>\<open>pat in s\<close>, and pandas' \<^verbatim>\<open>str.contains(pat)\<close> for a pattern that holds no regular
  expression operator: \<^term>\<open>pat\<close> occurs in \<^term>\<open>s\<close> as a contiguous run.\<close>

fun py_contains :: "string \<Rightarrow> string \<Rightarrow> bool" where
  "py_contains pat [] = (pat = [])"
| "py_contains pat (c # cs) = (prefix pat (c # cs) \<or> py_contains pat cs)"

text \<open>
  \<^verbatim>\<open>s.replace(old, new)\<close> for a non-empty \<^term>\<open>old\<close>: every occurrence, left to right,
  without overlap. (Python inserts \<^term>\<open>new\<close> between all characters for an empty
  \<^term>\<open>old\<close>; the program never passes one.)
\<close>

function py_replace :: "string \<Rightarrow> string \<Rightarrow> string \<Rightarrow> string" where
  "py_replace old new [] = []"
| "py_replace old new (c # cs) =
     (if old \<noteq> [] \<and> prefix old (c # cs)
      then new @ py_replace old new (drop (length old) (c # cs))
      else c # py_replace old new cs)"
  by pat_completeness auto
termination
  by (relation "measure (\<lambda>(old, new, s). length s)") (auto simp: neq_Nil_conv)

text \<open>\<^verbatim>\<open>str(n)\<close> for an integer.\<close>

fun show_nat :: "nat \<Rightarrow> string" where
  "show_nat n =
     (if n < 10 then [''0123456789'' ! n]
      else show_nat (n div 10) @ [''0123456789'' ! (n mod 10)])"

declare show_nat.simps [simp del]

definition show_int :: "int \<Rightarrow> string" where
  "show_int i = (if i < 0 then CHR ''-'' # show_nat (nat (- i)) else show_nat (nat i))"

definition show_bool :: "bool \<Rightarrow> string" where
  "show_bool b = (if b then ''True'' else ''False'')"

text \<open>Zero padding to a width, as \<^verbatim>\<open>%02d\<close> and \<^verbatim>\<open>%04d\<close> do.\<close>

definition zero_pad :: "nat \<Rightarrow> nat \<Rightarrow> string" where
  "zero_pad w n = replicate (w - length (show_nat n)) (CHR ''0'') @ show_nat n"

subsection \<open>Calendar dates\<close>

datatype date = Date (year: nat) (month: nat) (day: nat)

text \<open>\<^verbatim>\<open>d1 <= d2\<close> on \<^verbatim>\<open>datetime.date\<close>.\<close>

definition date_le :: "date \<Rightarrow> date \<Rightarrow> bool" where
  "date_le a b =
     (year a < year b \<or>
      (year a = year b \<and> (month a < month b \<or> (month a = month b \<and> day a \<le> day b))))"

definition is_leap :: "nat \<Rightarrow> bool" where
  "is_leap y = (y mod 4 = 0 \<and> (y mod 100 \<noteq> 0 \<or> y mod 400 = 0))"

definition days_in_month :: "nat \<Rightarrow> nat \<Rightarrow> nat" where
  "days_in_month y m =
     (if m = 2 then (if is_leap y then 29 else 28)
      else if m \<in> set [4, 6, 9, 11] then 30 else 31)"

text \<open>What the \<^verbatim>\<open>datetime\<close> constructor accepts; anything else is a \<^verbatim>\<open>ValueError\<close>.\<close>

definition valid_date :: "nat \<Rightarrow> nat \<Rightarrow> nat \<Rightarrow> bool" where
  "valid_date y m d =
     (1 \<le> y \<and> y \<le> 9999 \<and> 1 \<le> m \<and> m \<le> 12 \<and> 1 \<le> d \<and> d \<le> days_in_month y m)"

subsection \<open>\<^verbatim>\<open>datetime.strptime(s, '%d/%m/%Y')\<close>\<close>

text \<open>
  \<^verbatim>\<open>strptime\<close> matches the string against one regular expression per directive, and
  the whole string must be used up:
  \<^verbatim>\<open>%d\<close> is \<^verbatim>\<open>3[0-1]|[1-2]\d|0[1-9]|[1-9]| [1-9]\<close>,
  \<^verbatim>\<open>%m\<close> is \<^verbatim>\<open>1[0-2]|0[1-9]|[1-9]\<close> and \<^verbatim>\<open>%Y\<close> is \<^verbatim>\<open>\d\d\d\d\<close>.
  No alternative holds a \<^verbatim>\<open>/\<close>, so the day is what stands before the first one and the
  month what stands between the first and the second. On the modelled range \<^verbatim>\<open>\d\<close> is
  an ASCII digit. \<^term>\<open>None\<close> is the \<^verbatim>\<open>ValueError\<close>.
\<close>

definition ascii_digit :: "char \<Rightarrow> bool" where
  "ascii_digit c = (c \<in> set ''0123456789'')"

definition digit_value :: "char \<Rightarrow> nat" where
  "digit_value c = length (takeWhile (\<lambda>d. d \<noteq> c) ''0123456789'')"

definition day_field :: "string \<Rightarrow> nat option" where
  "day_field s =
     (case s of
        [a] \<Rightarrow> if a \<in> set ''123456789'' then Some (digit_value a) else None
      | [a, b] \<Rightarrow>
          if a = CHR ''3'' \<and> b \<in> set ''01'' then Some (30 + digit_value b)
          else if a \<in> set ''12'' \<and> ascii_digit b
            then Some (10 * digit_value a + digit_value b)
          else if a = CHR ''0'' \<and> b \<in> set ''123456789'' then Some (digit_value b)
          else if a = CHR '' '' \<and> b \<in> set ''123456789'' then Some (digit_value b)
          else None
      | _ \<Rightarrow> None)"

definition month_field :: "string \<Rightarrow> nat option" where
  "month_field s =
     (case s of
        [a] \<Rightarrow> if a \<in> set ''123456789'' then Some (digit_value a) else None
      | [a, b] \<Rightarrow>
          if a = CHR ''1'' \<and> b \<in> set ''012'' then Some (10 + digit_value b)
          else if a = CHR ''0'' \<and> b \<in> set ''123456789'' then Some (digit_value b)
          else None
      | _ \<Rightarrow> None)"

definition year_field :: "string \<Rightarrow> nat option" where
  "year_field s =
     (case s of
        [a, b, c, d] \<Rightarrow>
          if ascii_digit a \<and> ascii_digit b \<and> ascii_digit c \<and> ascii_digit d
          then Some (1000 * digit_value a + 100 * digit_value b + 10 * digit_value c
                     + digit_value d)
          else None
      | _ \<Rightarrow> None)"

definition not_slash :: "char \<Rightarrow> bool" where
  "not_slash c = (c \<noteq> CHR ''/'')"

definition strptime :: "string \<Rightarrow> date option" where
  "strptime s =
     (case dropWhile not_slash s of
        [] \<Rightarrow> None
      | _ # r1 \<Rightarrow>
          (case dropWhile not_slash r1 of
             [] \<Rightarrow> None
           | _ # r2 \<Rightarrow>
               (case (day_field (takeWhile not_slash s),
                      month_field (takeWhile not_slash r1), year_field r2) of
                  (Some d, Some m, Some y) \<Rightarrow>
                    if valid_date y m d then Some (Date y m d) else None
                | _ \<Rightarrow> None)))"

subsection \<open>Cells of a data frame\<close>

text \<open>
  The values a cell holds: a \<^verbatim>\<open>str\<close>, an \<^verbatim>\<open>int\<close>, the float \<^verbatim>\<open>nan\<close> pandas stores for a
  missing cell, a \<^verbatim>\<open>pd.Timestamp\<close> (its calendar date and its time of day in whole
  seconds, without a time zone) and \<^verbatim>\<open>pd.NaT\<close>. Other floats are left out: rendering
  them as text is floating-point formatting.
\<close>

datatype cell = Str string | Integer int | NaN | Timestamp date nat nat nat | NaT

text \<open>\<^verbatim>\<open>str(x)\<close>, which is also what an f-string writes for \<^verbatim>\<open>{x}\<close>.\<close>

fun py_str :: "cell \<Rightarrow> string" where
  "py_str (Str s) = s"
| "py_str (Integer i) = show_int i"
| "py_str NaN = ''nan''"
| "py_str (Timestamp d h m s) =
     zero_pad 4 (year d) @ ''-'' @ zero_pad 2 (month d) @ ''-'' @ zero_pad 2 (day d) @ '' '' @
     zero_pad 2 h @ '':'' @ zero_pad 2 m @ '':'' @ zero_pad 2 s"
| "py_str NaT = ''NaT''"

text \<open>\<^verbatim>\<open>x[-4:]\<close>: only a string can be sliced; every other cell raises \<^verbatim>\<open>TypeError\<close>.\<close>

fun slice_last4 :: "cell \<Rightarrow> py_error + string" where
  "slice_last4 (Str s) = Inr (last4 s)"
| "slice_last4 _ = Inl TypeError"

section \<open>The field predicates of \<^verbatim>\<open>clean_data\<close>\<close>

fun is_valid_kk_no :: "cell \<Rightarrow> bool" where
  "is_valid_kk_no (Str kk_no) =
     (py_isdigit kk_no \<and> length kk_no = 16 \<and> last4 kk_no \<noteq> ''0000'')"
| "is_valid_kk_no _ = False"

fun is_valid_nik :: "cell \<Rightarrow> bool" where
  "is_valid_nik (Str nik) = (py_isdigit nik \<and> length nik = 16 \<and> last4 nik \<noteq> ''0000'')"
| "is_valid_nik _ = False"

fun is_valid_custname :: "cell \<Rightarrow> bool" where
  "is_valid_custname (Str custname) = (\<not> list_ex is_digit_char custname)"
| "is_valid_custname _ = False"

definition is_valid_jenis_kelamin :: "cell \<Rightarrow> bool" where
  "is_valid_jenis_kelamin jenis_kelamin =
     (jenis_kelamin \<in> set [Str ''LAKI-LAKI'', Str ''LAKI - LAKI'', Str ''LAKI LAKI'',
        Str ''PEREMPUAN''])"

fun is_valid_tempat_lahir :: "string list \<Rightarrow> cell \<Rightarrow> bool" where
  "is_valid_tempat_lahir kota_indonesia (Str tempat_lahir) =
     (py_upper tempat_lahir \<in> set kota_indonesia)"
| "is_valid_tempat_lahir kota_indonesia _ = False"

text \<open>\<^term>\<open>today\<close> is \<^verbatim>\<open>datetime.today().date()\<close>, read once for the run.\<close>

fun is_valid_date :: "date \<Rightarrow> cell \<Rightarrow> bool" where
  "is_valid_date today (Str date_str) =
     (case strptime date_str of Some date_obj \<Rightarrow> date_le date_obj today | None \<Rightarrow> False)"
| "is_valid_date today (Timestamp d h m s) = date_le d today"
| "is_valid_date today _ = False"

section \<open>Data frames\<close>

text \<open>
  The frame \<^verbatim>\<open>clean_data\<close> receives holds the six required columns and nothing else
  (\<^verbatim>\<open>df_req = df_full.loc[:, required_columns].copy()\<close>); its cells are not typed. A frame
  is the list of its rows, in order. \<^verbatim>\<open>raw_df['Check_Desc'] = ''\<close> adds the seventh
  column.
\<close>

definition required_columns :: "string list" where
  "required_columns =
     [''KK_NO'', ''NIK'', ''CUSTNAME'', ''JENIS_KELAMIN'', ''TANGGAL_LAHIR'', ''TEMPAT_LAHIR'']"

record row =
  KK_NO :: cell
  NIK :: cell
  CUSTNAME :: cell
  JENIS_KELAMIN :: cell
  TANGGAL_LAHIR :: cell
  TEMPAT_LAHIR :: cell

record checked_row = row +
  Check_Desc :: string

definition with_check_desc :: "row \<Rightarrow> string \<Rightarrow> checked_row" where
  "with_check_desc r d = row.extend r (checked_row.fields d)"

text \<open>\<^verbatim>\<open>drop(columns=['Check_Desc'])\<close> on one row.\<close>

definition drop_check_desc :: "checked_row \<Rightarrow> row" where
  "drop_check_desc r = row.truncate r"

section \<open>\<^verbatim>\<open>clean_data\<close>\<close>

subsection \<open>The clauses of the diagnostic\<close>

text \<open>
  Each is the lambda of one \<^verbatim>\<open>+=\<close> statement. The first two slice the cell itself
  (\<^verbatim>\<open>x[-4:]\<close>), after taking the length and the digit test from \<^verbatim>\<open>str(x)\<close>.
\<close>

definition kk_no_clause :: "cell \<Rightarrow> py_error + string" where
  "kk_no_clause x =
     (case slice_last4 x of
        Inl e \<Rightarrow> Inl e
      | Inr t \<Rightarrow>
          Inr (''Invalid KK_NO (length: '' @ show_nat (length (py_str x)) @
               '', digits only: '' @ show_bool (py_isdigit (py_str x)) @
               '', last_digits: '' @ t @ ''); ''))"

definition nik_clause :: "cell \<Rightarrow> py_error + string" where
  "nik_clause x =
     (case slice_last4 x of
        Inl e \<Rightarrow> Inl e
      | Inr t \<Rightarrow>
          Inr (''Invalid NIK (length: '' @ show_nat (length (py_str x)) @
               '', digits only: '' @ show_bool (py_isdigit (py_str x)) @
               '', last_digits: '' @ t @ ''); ''))"

definition custname_clause :: "cell \<Rightarrow> py_error + string" where
  "custname_clause x =
     Inr (''Invalid CUSTNAME (contains special characters or digits: '' @ py_str x @ ''); '')"

definition jenis_kelamin_clause :: "cell \<Rightarrow> py_error + string" where
  "jenis_kelamin_clause x = Inr (''Invalid JENIS_KELAMIN (value: '' @ py_str x @ ''); '')"

definition tempat_lahir_clause :: "cell \<Rightarrow> py_error + string" where
  "tempat_lahir_clause x = Inr (''Invalid TEMPAT_LAHIR (value: '' @ py_str x @ ''); '')"

definition tanggal_lahir_clause :: "cell \<Rightarrow> py_error + string" where
  "tanggal_lahir_clause x =
     Inr (''Invalid TANGGAL_LAHIR (value: '' @ py_str x @ '', expected format DD/MM/YYYY); '')"

subsection \<open>The function\<close>

text \<open>
  \<^verbatim>\<open>raw_df.loc[~valid, 'Check_Desc'] += raw_df.loc[~valid, col].apply(clause)\<close>: the
  clause is built for every row the mask selects, top to bottom, and appended to that row's
  diagnostic. An exception in a clause ends the whole call.
\<close>

fun add_desc ::
  "(checked_row \<Rightarrow> bool) \<Rightarrow> (checked_row \<Rightarrow> py_error + string) \<Rightarrow> checked_row list
     \<Rightarrow> py_error + checked_row list" where
  "add_desc valid clause [] = Inr []"
| "add_desc valid clause (r # rs) =
     (if valid r
      then (case add_desc valid clause rs of
              Inl e \<Rightarrow> Inl e
            | Inr rs' \<Rightarrow> Inr (r # rs'))
      else (case clause r of
              Inl e \<Rightarrow> Inl e
            | Inr c \<Rightarrow>
                (case add_desc valid clause rs of
                   Inl e \<Rightarrow> Inl e
                 | Inr rs' \<Rightarrow> Inr (r\<lparr>Check_Desc := Check_Desc r @ c\<rparr> # rs'))))"

text \<open>
  The mask of line 73,
  \<^verbatim>\<open>valid_kk_no & valid_nik & valid_custname & valid_jenis_kelamin & valid_tempat_lahir & valid_tanggal_lahir\<close>,
  on one row.
\<close>

definition all_valid :: "date \<Rightarrow> string list \<Rightarrow> 'a row_scheme \<Rightarrow> bool" where
  "all_valid today kota_indonesia r =
     (is_valid_kk_no (KK_NO r) \<and> is_valid_nik (NIK r) \<and> is_valid_custname (CUSTNAME r) \<and>
      is_valid_jenis_kelamin (JENIS_KELAMIN r) \<and>
      is_valid_tempat_lahir kota_indonesia (TEMPAT_LAHIR r) \<and>
      is_valid_date today (TANGGAL_LAHIR r))"

text \<open>
  The result is \<^verbatim>\<open>(messy_df, clean_df)\<close>. The six masks are computed from the six data
  columns, which no statement assigns, so the model reads them from the row where the
  source reads the stored mask.
\<close>

definition clean_data ::
  "date \<Rightarrow> string list \<Rightarrow> row list \<Rightarrow> py_error + checked_row list \<times> row list" where
  "clean_data today kota_indonesia raw_df =
     (let df0 = map (\<lambda>r. with_check_desc r []) raw_df;
          clean_df = filter (all_valid today kota_indonesia) df0
      in case add_desc (\<lambda>r. is_valid_kk_no (KK_NO r)) (\<lambda>r. kk_no_clause (KK_NO r)) df0 of
        Inl e \<Rightarrow> Inl e
      | Inr df1 \<Rightarrow>
      (case add_desc (\<lambda>r. is_valid_nik (NIK r)) (\<lambda>r. nik_clause (NIK r)) df1 of
        Inl e \<Rightarrow> Inl e
      | Inr df2 \<Rightarrow>
      (case add_desc (\<lambda>r. is_valid_custname (CUSTNAME r))
              (\<lambda>r. custname_clause (CUSTNAME r)) df2 of
        Inl e \<Rightarrow> Inl e
      | Inr df3 \<Rightarrow>
      (case add_desc (\<lambda>r. is_valid_jenis_kelamin (JENIS_KELAMIN r))
              (\<lambda>r. jenis_kelamin_clause (JENIS_KELAMIN r)) df3 of
        Inl e \<Rightarrow> Inl e
      | Inr df4 \<Rightarrow>
      (case add_desc (\<lambda>r. is_valid_tempat_lahir kota_indonesia (TEMPAT_LAHIR r))
              (\<lambda>r. tempat_lahir_clause (TEMPAT_LAHIR r)) df4 of
        Inl e \<Rightarrow> Inl e
      | Inr df5 \<Rightarrow>
      (case add_desc (\<lambda>r. is_valid_date today (TANGGAL_LAHIR r))
              (\<lambda>r. tanggal_lahir_clause (TANGGAL_LAHIR r)) df5 of
        Inl e \<Rightarrow> Inl e
      | Inr df6 \<Rightarrow>
          Inr (filter (\<lambda>r. Check_Desc r \<noteq> []) df6, map drop_check_desc clean_df)))))))"

section \<open>\<^verbatim>\<open>generate_summary_excel\<close>\<close>

text \<open>\<^verbatim>\<open>messy_df.shape\<close>: the rows, and the six required columns with \<^verbatim>\<open>Check_Desc\<close>.\<close>

definition shape :: "checked_row list \<Rightarrow> nat \<times> nat" where
  "shape messy_df = (length messy_df, length (required_columns @ [''Check_Desc'']))"

text \<open>\<^verbatim>\<open>len(messy_df[messy_df['Check_Desc'].str.contains(marker)])\<close>.\<close>

definition count_contains :: "string \<Rightarrow> checked_row list \<Rightarrow> int" where
  "count_contains marker messy_df =
     int (length (filter (\<lambda>r. py_contains marker (Check_Desc r)) messy_df))"

record counts =
  total_data :: int
  messy_data :: int
  clean_data' :: int
  total_invalid :: int
  clean_invalid :: int
  messy_invalid :: int
  invalid_kk :: int
  invalid_nik :: int
  invalid_name :: int
  invalid_gender :: int
  invalid_places :: int
  invalid_date :: int

text \<open>The statistics, lines 108 to 123; they are the row \<^verbatim>\<open>summary_counts\<close>.\<close>

definition statistics :: "checked_row list \<Rightarrow> row list \<Rightarrow> int \<Rightarrow> counts" where
  "statistics messy_df clean_df tot =
     (let (num_rows, num_cols) = shape messy_df;
          len_param = int num_cols - 1;
          kk = count_contains ''Invalid KK_NO'' messy_df;
          nik = count_contains ''Invalid NIK'' messy_df;
          name = count_contains ''Invalid CUSTNAME'' messy_df;
          gender = count_contains ''Invalid JENIS_KELAMIN'' messy_df;
          places = count_contains ''Invalid TEMPAT_LAHIR'' messy_df;
          dates = count_contains ''Invalid TANGGAL_LAHIR'' messy_df;
          total_inv = int (length messy_df) * len_param;
          messy_inv = kk + nik + name + gender + places + dates
      in \<lparr>total_data = tot, messy_data = int (length messy_df),
          clean_data' = int (length clean_df), total_invalid = total_inv,
          clean_invalid = total_inv - messy_inv, messy_invalid = messy_inv,
          invalid_kk = kk, invalid_nik = nik, invalid_name = name, invalid_gender = gender,
          invalid_places = places, invalid_date = dates\<rparr>)"

text \<open>
  A percentage figure: the literal \<^verbatim>\<open>100.0\<close>, or the float \<^verbatim>\<open>round(a / b * 100, 2)\<close>,
  kept as its two integer operands since float arithmetic is not modelled. The division
  \<^verbatim>\<open>a / b\<close> of two Python integers raises \<^verbatim>\<open>ZeroDivisionError\<close> when \<^verbatim>\<open>b\<close> is zero.
\<close>

datatype percentage = Hundred | Rounded int int

definition percent :: "int \<Rightarrow> int \<Rightarrow> py_error + percentage" where
  "percent a b = (if b = 0 then Inl ZeroDivisionError else Inr (Rounded a b))"

text \<open>A list display evaluates its entries left to right; the first exception ends it.\<close>

fun collect :: "(py_error + 'a) list \<Rightarrow> py_error + 'a list" where
  "collect [] = Inr []"
| "collect (Inl e # xs) = Inl e"
| "collect (Inr v # xs) = (case collect xs of Inl e \<Rightarrow> Inl e | Inr vs \<Rightarrow> Inr (v # vs))"

text \<open>The workbook: the two rows of the summary sheet, and the two data sheets.\<close>

record report =
  summary_counts :: counts
  summary_percentages :: "percentage list"
  messy_sheet :: "checked_row list"
  clean_sheet :: "row list"

text \<open>
  The function evaluates the list display of line 128, and only then opens
  \<^verbatim>\<open>pd.ExcelWriter\<close>, writes the three sheets with \<^verbatim>\<open>to_excel\<close> and returns the bytes
  written (lines 133 to 138). Writing is the work of pandas and openpyxl, not of the
  program: it is the parameter \<^term>\<open>to_excel\<close>, which takes the workbook and gives the bytes
  or the exception the libraries raise (openpyxl raises \<^verbatim>\<open>IllegalCharacterError\<close> for a
  cell that holds a control character, for one). Whatever it gives is the outcome of the
  call.
\<close>

definition generate_summary_excel ::
  "(report \<Rightarrow> py_error + 'b) \<Rightarrow> checked_row list \<Rightarrow> row list \<Rightarrow> int \<Rightarrow> py_error + 'b" where
  "generate_summary_excel to_excel messy_df clean_df tot =
     (let c = statistics messy_df clean_df tot
      in case collect
           [Inr Hundred, percent (messy_data c) tot, percent (clean_data' c) tot,
            Inr Hundred, percent (clean_invalid c) (total_invalid c),
            percent (messy_invalid c) (total_invalid c),
            percent (invalid_kk c) (total_invalid c),
            percent (invalid_nik c) (total_invalid c),
            percent (invalid_name c) (total_invalid c),
            percent (invalid_gender c) (total_invalid c),
            percent (invalid_places c) (total_invalid c),
            percent (invalid_date c) (total_invalid c)] of
           Inl e \<Rightarrow> Inl e
         | Inr ps \<Rightarrow>
             to_excel \<lparr>summary_counts = c, summary_percentages = ps, messy_sheet = messy_df,
               clean_sheet = clean_df\<rparr>)"

section \<open>The city list \<^verbatim>\<open>kota_indonesia\<close>\<close>

text \<open>
  The uploaded table is read either through its column \<^verbatim>\<open>CITY_DESC\<close> or, when it has
  none, through its first column. The entries are strings; a missing entry is outside
  the model.
\<close>

datatype city_df = CITY_DESC "string list" | First_column "string list"

definition new_kota :: "string list" where
  "new_kota = [''ACEH BARAT'', ''ACEH BESAR'', ''ACEH TAMIANG'', ''ACEH TIMUR'', ''ACEH'',
     ''JAKARTA'', ''BANDUNG'', ''SURABAYA'', ''MEDAN'', ''MAKASSAR'']"

text \<open>
  Line 279 on one entry: the three calls of the accessor \<^verbatim>\<open>.str.replace\<close>, which replaces
  as \<^verbatim>\<open>str.replace\<close> does (none of the three patterns holds a regular expression
  operator).
\<close>

definition city_desc_replace :: "string \<Rightarrow> string" where
  "city_desc_replace s =
     py_replace ''Kab '' [] (py_replace ''Kabupaten '' [] (py_replace ''Kota '' [] s))"

text \<open>
  Line 280 on one entry: the accessor \<^verbatim>\<open>.str.upper()\<close> of pandas. Where pandas stores the
  column as Python strings it calls \<^verbatim>\<open>str.upper\<close>; where it stores Arrow strings it maps
  every character by itself, and U+00DF becomes U+1E9E where \<^verbatim>\<open>str.upper\<close> gives
  \<^verbatim>\<open>SS\<close>. On every other character of the modelled range the two agree. The model
  gives no answer (\<^term>\<open>None\<close>) for an entry that holds U+00DF, whose upper-case form
  depends on the version of pandas, or U+00B5 or U+00FF, whose upper-case forms lie beyond
  U+00FF: such an entry is outside the model.
\<close>

definition same_upper :: "string \<Rightarrow> bool" where
  "same_upper s = (\<not> list_ex (\<lambda>c. c \<in> set [CHR 0xB5, CHR 0xDF, CHR 0xFF]) s)"

definition pd_str_upper :: "string \<Rightarrow> string option" where
  "pd_str_upper s = (if same_upper s then Some (py_upper s) else None)"

text \<open>
  Line 284 on one entry, \<^verbatim>\<open>city.strip().upper()\<close>, with no answer for an entry that
  holds U+00B5 or U+00FF, as above.
\<close>

definition upper_in_range :: "string \<Rightarrow> bool" where
  "upper_in_range s = (\<not> list_ex (\<lambda>c. c \<in> set [CHR 0xB5, CHR 0xFF]) s)"

definition strip_upper :: "string \<Rightarrow> string option" where
  "strip_upper city =
     (if upper_in_range (py_strip city) then Some (py_upper (py_strip city)) else None)"

text \<open>
  Lines 277 to 296. The result is \<^term>\<open>None\<close> where an entry of the column is
  outside the model, and the list \<^verbatim>\<open>kota_indonesia\<close> otherwise.
\<close>

definition kota_indonesia :: "city_df \<Rightarrow> bool \<Rightarrow> string list option" where
  "kota_indonesia df new_kota_option =
     map_option (\<lambda>kota. kota @ (if new_kota_option then new_kota else []))
       (case df of
          CITY_DESC col \<Rightarrow> those (map (\<lambda>s. pd_str_upper (city_desc_replace s)) col)
        | First_column col \<Rightarrow> those (map strip_upper col))"

section \<open>Notions used in the statements\<close>

subsection \<open>What \<^verbatim>\<open>clean_data\<close> computes, row by row\<close>

text \<open>
  Only a string can be sliced, so the first two clauses can be built for a row only if
  its \<^verbatim>\<open>KK_NO\<close> and \<^verbatim>\<open>NIK\<close> cells are strings.
\<close>

fun is_str :: "cell \<Rightarrow> bool" where
  "is_str (Str s) = True"
| "is_str _ = False"

definition str_ids :: "'a row_scheme \<Rightarrow> bool" where
  "str_ids r = (is_str (KK_NO r) \<and> is_str (NIK r))"

fun clause_text :: "py_error + string \<Rightarrow> string" where
  "clause_text (Inl e) = []"
| "clause_text (Inr t) = t"

text \<open>What one \<^verbatim>\<open>+=\<close> statement appends to the diagnostic of one row.\<close>

definition failed_clause :: "bool \<Rightarrow> py_error + string \<Rightarrow> string" where
  "failed_clause valid c = (if valid then [] else clause_text c)"

definition upd ::
  "(checked_row \<Rightarrow> bool) \<Rightarrow> (checked_row \<Rightarrow> py_error + string) \<Rightarrow> checked_row
     \<Rightarrow> checked_row" where
  "upd valid clause r = r\<lparr>Check_Desc := Check_Desc r @ failed_clause (valid r) (clause r)\<rparr>"

text \<open>The diagnostic of a row after the six statements: the clauses of the failing
  predicates, in the order of the statements.\<close>

definition check_desc :: "date \<Rightarrow> string list \<Rightarrow> 'a row_scheme \<Rightarrow> string" where
  "check_desc today kota r =
     failed_clause (is_valid_kk_no (KK_NO r)) (kk_no_clause (KK_NO r)) @
     failed_clause (is_valid_nik (NIK r)) (nik_clause (NIK r)) @
     failed_clause (is_valid_custname (CUSTNAME r)) (custname_clause (CUSTNAME r)) @
     failed_clause (is_valid_jenis_kelamin (JENIS_KELAMIN r))
       (jenis_kelamin_clause (JENIS_KELAMIN r)) @
     failed_clause (is_valid_tempat_lahir kota (TEMPAT_LAHIR r))
       (tempat_lahir_clause (TEMPAT_LAHIR r)) @
     failed_clause (is_valid_date today (TANGGAL_LAHIR r))
       (tanggal_lahir_clause (TANGGAL_LAHIR r))"

subsection \<open>Dates written as text\<close>

text \<open>The digit of a number below ten, and a date written \<^verbatim>\<open>DD/MM/YYYY\<close>.\<close>

definition dig :: "nat \<Rightarrow> char" where
  "dig k = ''0123456789'' ! k"

definition ddmmyyyy :: "date \<Rightarrow> string" where
  "ddmmyyyy d = zero_pad 2 (day d) @ ''/'' @ zero_pad 2 (month d) @ ''/'' @ zero_pad 4 (year d)"

subsection \<open>The specification's wording\<close>

text \<open>
  The specification speaks of a value that consists only of decimal digits, and of a string
  in the format \<^verbatim>\<open>DD/MM/YYYY\<close>: two digits, a slash, two digits, a slash, four digits.
  The two definitions below follow these words; they are compared with what the program
  accepts.
\<close>

definition spec_decimal_digit :: "char \<Rightarrow> bool" where
  "spec_decimal_digit c = (c \<in> set ''0123456789'')"

definition spec_ddmmyyyy :: "string \<Rightarrow> bool" where
  "spec_ddmmyyyy s =
     (case s of
        [d1, d2, s1, m1, m2, s2, y1, y2, y3, y4] \<Rightarrow>
          list_all spec_decimal_digit [d1, d2, m1, m2, y1, y2, y3, y4] \<and>
          s1 = CHR ''/'' \<and> s2 = CHR ''/''
      | _ \<Rightarrow> False)"

text \<open>
  The specification's city set: from each entry the first occurrence of each of the three
  literals is stripped, the rest is trimmed and upper-cased, and the results make a set.
\<close>

fun spec_strip_first :: "string \<Rightarrow> string \<Rightarrow> string" where
  "spec_strip_first lit [] = []"
| "spec_strip_first lit (c # cs) =
     (if prefix lit (c # cs) then drop (length lit) (c # cs)
      else c # spec_strip_first lit cs)"

definition spec_normalize :: "string \<Rightarrow> string" where
  "spec_normalize s =
     py_upper (py_strip (spec_strip_first ''Kab '' (spec_strip_first ''Kabupaten ''
       (spec_strip_first ''Kota '' s))))"

definition spec_city_set :: "string list \<Rightarrow> string set" where
  "spec_city_set raw = set (map spec_normalize raw)"

subsection \<open>Example rows and frames\<close>

text \<open>A row on which the six predicates hold when \<^verbatim>\<open>JAKARTA\<close> is a known city.\<close>

definition ok_row :: row where
  "ok_row = \<lparr>KK_NO = Str ''1234567890123456'', NIK = Str ''3201234567890123'',
     CUSTNAME = Str ''Budi Santoso'', JENIS_KELAMIN = Str ''PEREMPUAN'',
     TANGGAL_LAHIR = Str ''01/01/2000'', TEMPAT_LAHIR = Str ''Jakarta''\<rparr>"

text \<open>
  A batch of a hundred rows: ninety that pass, five whose two identifiers are too short,
  five whose name holds digits; and the ten messy rows \<^verbatim>\<open>clean_data\<close> makes of it.
\<close>

definition short_ids_row :: row where
  "short_ids_row = ok_row\<lparr>KK_NO := Str ''12'', NIK := Str ''345''\<rparr>"

definition digit_name_row :: row where
  "digit_name_row = ok_row\<lparr>CUSTNAME := Str ''Budi123''\<rparr>"

definition example_batch :: "row list" where
  "example_batch = replicate 90 ok_row @ replicate 5 short_ids_row @ replicate 5 digit_name_row"

definition example_messy :: "checked_row list" where
  "example_messy =
     replicate 5 (with_check_desc short_ids_row
       (''Invalid KK_NO (length: 2, digits only: True, last_digits: 12); '' @
        ''Invalid NIK (length: 3, digits only: True, last_digits: 345); '')) @
     replicate 5 (with_check_desc digit_name_row
       ''Invalid CUSTNAME (contains special characters or digits: Budi123); '')"

text \<open>A row whose gender cell holds the text of another field's marker.\<close>

definition marker_row :: row where
  "marker_row = ok_row\<lparr>JENIS_KELAMIN := Str ''Invalid NIK''\<rparr>"

text \<open>
  A writer that accepts every workbook and gives it back, for closed instances of
  \<^const>\<open>generate_summary_excel\<close>.
\<close>

definition accepting_writer :: "report \<Rightarrow> py_error + report" where
  "accepting_writer workbook = Inr workbook"

section \<open>Auxiliary lemmas\<close>

subsection \<open>The diagnostic statements\<close>

lemma add_desc_ok:
  "list_all (\<lambda>r. valid r \<or> \<not> isl (clause r)) rs \<Longrightarrow>
     add_desc valid clause rs = Inr (map (upd valid clause) rs)"
proof (induction rs)
  case Nil
  show ?case by simp
next
  case (Cons r rs)
  then show ?case
    by (cases "clause r") (auto simp: upd_def failed_clause_def)
qed

lemma add_desc_err:
  "\<not> list_all (\<lambda>r. valid r \<or> \<not> isl (clause r)) rs \<Longrightarrow> isl (add_desc valid clause rs)"
proof (induction rs)
  case Nil
  then show ?case by simp
next
  case (Cons r rs)
  then show ?case
    by (cases "clause r") (auto split: sum.splits)
qed

lemma add_desc_Inl:
  "add_desc valid clause rs = Inl e \<Longrightarrow> \<exists>r \<in> set rs. \<not> valid r \<and> clause r = Inl e"
  by (induction rs) (auto split: sum.splits if_splits)

lemma add_desc_Inr:
  "add_desc valid clause rs = Inr rs' \<longleftrightarrow>
     list_all (\<lambda>r. valid r \<or> \<not> isl (clause r)) rs \<and> rs' = map (upd valid clause) rs"
proof (cases "list_all (\<lambda>r. valid r \<or> \<not> isl (clause r)) rs")
  case True
  then show ?thesis using add_desc_ok [OF True] by auto
next
  case False
  then show ?thesis using add_desc_err [OF False] by auto
qed

lemma upd_fields [simp]:
  "KK_NO (upd v c r) = KK_NO r" "NIK (upd v c r) = NIK r" "CUSTNAME (upd v c r) = CUSTNAME r"
  "JENIS_KELAMIN (upd v c r) = JENIS_KELAMIN r" "TEMPAT_LAHIR (upd v c r) = TEMPAT_LAHIR r"
  "TANGGAL_LAHIR (upd v c r) = TANGGAL_LAHIR r"
  "Check_Desc (upd v c r) = Check_Desc r @ failed_clause (v r) (c r)"
  by (simp_all add: upd_def)

lemma with_check_desc_fields [simp]:
  "KK_NO (with_check_desc r d) = KK_NO r" "NIK (with_check_desc r d) = NIK r"
  "CUSTNAME (with_check_desc r d) = CUSTNAME r"
  "JENIS_KELAMIN (with_check_desc r d) = JENIS_KELAMIN r"
  "TEMPAT_LAHIR (with_check_desc r d) = TEMPAT_LAHIR r"
  "TANGGAL_LAHIR (with_check_desc r d) = TANGGAL_LAHIR r"
  "Check_Desc (with_check_desc r d) = d"
  "drop_check_desc (with_check_desc r d) = r"
  by (simp_all add: with_check_desc_def drop_check_desc_def row.defs checked_row.defs)

lemma all_valid_with_check_desc:
  "all_valid today kota (with_check_desc r d) = all_valid today kota r"
  by (simp add: all_valid_def)

lemma upd_with_check_desc:
  "upd v c (with_check_desc r d) = with_check_desc r (d @ failed_clause (v (with_check_desc r d)) (c (with_check_desc r d)))"
  by (simp add: upd_def with_check_desc_def row.defs checked_row.defs)

lemma kk_no_clause_isl: "isl (kk_no_clause x) \<longleftrightarrow> \<not> is_str x"
  by (cases x) (simp_all add: kk_no_clause_def)

lemma nik_clause_isl: "isl (nik_clause x) \<longleftrightarrow> \<not> is_str x"
  by (cases x) (simp_all add: nik_clause_def)

lemma valid_is_str: "is_valid_kk_no x \<Longrightarrow> is_str x" "is_valid_nik x \<Longrightarrow> is_str x"
  by (cases x; simp)+

lemma other_clauses_isl [simp]:
  "\<not> isl (custname_clause x)" "\<not> isl (jenis_kelamin_clause x)"
  "\<not> isl (tempat_lahir_clause x)" "\<not> isl (tanggal_lahir_clause x)"
  by (simp_all add: custname_clause_def jenis_kelamin_clause_def tempat_lahir_clause_def
      tanggal_lahir_clause_def)

lemma clause_TypeError:
  "kk_no_clause x = Inl e \<Longrightarrow> e = TypeError" "nik_clause x = Inl e \<Longrightarrow> e = TypeError"
  by (cases x; simp add: kk_no_clause_def nik_clause_def)+

lemma step1:
  "list_all (\<lambda>r. is_str (KK_NO r)) rs \<Longrightarrow>
   add_desc (\<lambda>r. is_valid_kk_no (KK_NO r)) (\<lambda>r. kk_no_clause (KK_NO r)) rs =
     Inr (map (upd (\<lambda>r. is_valid_kk_no (KK_NO r)) (\<lambda>r. kk_no_clause (KK_NO r))) rs)"
  by (rule add_desc_ok) (simp add: kk_no_clause_isl list_all_iff)

lemma step2:
  "list_all (\<lambda>r. is_str (NIK r)) rs \<Longrightarrow>
   add_desc (\<lambda>r. is_valid_nik (NIK r)) (\<lambda>r. nik_clause (NIK r)) rs =
     Inr (map (upd (\<lambda>r. is_valid_nik (NIK r)) (\<lambda>r. nik_clause (NIK r))) rs)"
  by (rule add_desc_ok) (simp add: nik_clause_isl list_all_iff)

lemma step1_err:
  "\<not> list_all (\<lambda>r. is_str (KK_NO r)) rs \<Longrightarrow>
   add_desc (\<lambda>r. is_valid_kk_no (KK_NO r)) (\<lambda>r. kk_no_clause (KK_NO r)) rs = Inl TypeError"
proof -
  assume a: "\<not> list_all (\<lambda>r. is_str (KK_NO r)) rs"
  have "\<not> list_all (\<lambda>r. is_valid_kk_no (KK_NO r) \<or> \<not> isl (kk_no_clause (KK_NO r))) rs"
    using a valid_is_str(1) by (auto simp: kk_no_clause_isl list_all_iff)
  from add_desc_err [OF this] obtain e where
    e: "add_desc (\<lambda>r. is_valid_kk_no (KK_NO r)) (\<lambda>r. kk_no_clause (KK_NO r)) rs = Inl e"
    by (auto simp: isl_def)
  from add_desc_Inl [OF e] have "e = TypeError" by (auto dest: clause_TypeError)
  with e show ?thesis by simp
qed

lemma step2_err:
  "\<not> list_all (\<lambda>r. is_str (NIK r)) rs \<Longrightarrow>
   add_desc (\<lambda>r. is_valid_nik (NIK r)) (\<lambda>r. nik_clause (NIK r)) rs = Inl TypeError"
proof -
  assume a: "\<not> list_all (\<lambda>r. is_str (NIK r)) rs"
  have "\<not> list_all (\<lambda>r. is_valid_nik (NIK r) \<or> \<not> isl (nik_clause (NIK r))) rs"
    using a valid_is_str(2) by (auto simp: nik_clause_isl list_all_iff)
  from add_desc_err [OF this] obtain e where
    e: "add_desc (\<lambda>r. is_valid_nik (NIK r)) (\<lambda>r. nik_clause (NIK r)) rs = Inl e"
    by (auto simp: isl_def)
  from add_desc_Inl [OF e] have "e = TypeError" by (auto dest: clause_TypeError)
  with e show ?thesis by simp
qed

lemma step_total:
  "(\<And>r. \<not> isl (clause r)) \<Longrightarrow> add_desc valid clause rs = Inr (map (upd valid clause) rs)"
  by (rule add_desc_ok) (simp add: list_all_iff)

lemma clean_data_err:
  assumes "\<not> list_all str_ids df"
  shows "clean_data today kota df = Inl TypeError"
proof (cases "list_all (\<lambda>r. is_str (KK_NO r)) df")
  case False
  then have "\<not> list_all (\<lambda>r. is_str (KK_NO r)) (map (\<lambda>r. with_check_desc r []) df)"
    by (simp add: list_all_iff)
  from step1_err [OF this] show ?thesis
    by (simp add: clean_data_def Let_def)
next
  case True
  then have a: "list_all (\<lambda>r. is_str (KK_NO r)) (map (\<lambda>r. with_check_desc r []) df)"
    by (simp add: list_all_iff)
  from True assms have "\<not> list_all (\<lambda>r. is_str (NIK r)) df"
    by (auto simp: list_all_iff str_ids_def)
  then have "\<not> list_all (\<lambda>r. is_str (NIK r))
      (map (upd (\<lambda>r. is_valid_kk_no (KK_NO r)) (\<lambda>r. kk_no_clause (KK_NO r)))
         (map (\<lambda>r. with_check_desc r []) df))"
    by (simp add: list_all_iff)
  from step2_err [OF this] show ?thesis
    by (simp add: clean_data_def Let_def step1 [OF a])
qed

lemma chain_row:
  "upd (\<lambda>r. is_valid_date today (TANGGAL_LAHIR r)) (\<lambda>r. tanggal_lahir_clause (TANGGAL_LAHIR r))
    (upd (\<lambda>r. is_valid_tempat_lahir kota (TEMPAT_LAHIR r)) (\<lambda>r. tempat_lahir_clause (TEMPAT_LAHIR r))
     (upd (\<lambda>r. is_valid_jenis_kelamin (JENIS_KELAMIN r)) (\<lambda>r. jenis_kelamin_clause (JENIS_KELAMIN r))
      (upd (\<lambda>r. is_valid_custname (CUSTNAME r)) (\<lambda>r. custname_clause (CUSTNAME r))
       (upd (\<lambda>r. is_valid_nik (NIK r)) (\<lambda>r. nik_clause (NIK r))
        (upd (\<lambda>r. is_valid_kk_no (KK_NO r)) (\<lambda>r. kk_no_clause (KK_NO r))
          (with_check_desc r [])))))) = with_check_desc r (check_desc today kota r)"
  by (simp add: upd_with_check_desc check_desc_def)

lemma clean_data_ok:
  assumes "list_all str_ids df"
  shows "clean_data today kota df =
     Inr (filter (\<lambda>r. Check_Desc r \<noteq> []) (map (\<lambda>r. with_check_desc r (check_desc today kota r)) df),
          filter (all_valid today kota) df)"
proof -
  define df0 where "df0 = map (\<lambda>r. with_check_desc r []) df"
  define df1 where
    "df1 = map (upd (\<lambda>r. is_valid_kk_no (KK_NO r)) (\<lambda>r. kk_no_clause (KK_NO r))) df0"
  define df2 where "df2 = map (upd (\<lambda>r. is_valid_nik (NIK r)) (\<lambda>r. nik_clause (NIK r))) df1"
  define df3 where
    "df3 = map (upd (\<lambda>r. is_valid_custname (CUSTNAME r)) (\<lambda>r. custname_clause (CUSTNAME r))) df2"
  define df4 where
    "df4 = map (upd (\<lambda>r. is_valid_jenis_kelamin (JENIS_KELAMIN r))
                  (\<lambda>r. jenis_kelamin_clause (JENIS_KELAMIN r))) df3"
  define df5 where
    "df5 = map (upd (\<lambda>r. is_valid_tempat_lahir kota (TEMPAT_LAHIR r))
                  (\<lambda>r. tempat_lahir_clause (TEMPAT_LAHIR r))) df4"
  define df6 where
    "df6 = map (upd (\<lambda>r. is_valid_date today (TANGGAL_LAHIR r))
                  (\<lambda>r. tanggal_lahir_clause (TANGGAL_LAHIR r))) df5"
  have k0: "list_all (\<lambda>r. is_str (KK_NO r)) df0"
    using assms by (simp add: df0_def list_all_iff str_ids_def)
  have k1: "list_all (\<lambda>r. is_str (NIK r)) df1"
    using assms by (simp add: df1_def df0_def list_all_iff str_ids_def)
  have s1: "add_desc (\<lambda>r. is_valid_kk_no (KK_NO r)) (\<lambda>r. kk_no_clause (KK_NO r)) df0 = Inr df1"
    unfolding df1_def by (rule step1 [OF k0])
  have s2: "add_desc (\<lambda>r. is_valid_nik (NIK r)) (\<lambda>r. nik_clause (NIK r)) df1 = Inr df2"
    unfolding df2_def by (rule step2 [OF k1])
  have s3: "add_desc (\<lambda>r. is_valid_custname (CUSTNAME r)) (\<lambda>r. custname_clause (CUSTNAME r)) df2
      = Inr df3"
    unfolding df3_def by (rule step_total) simp
  have s4: "add_desc (\<lambda>r. is_valid_jenis_kelamin (JENIS_KELAMIN r))
      (\<lambda>r. jenis_kelamin_clause (JENIS_KELAMIN r)) df3 = Inr df4"
    unfolding df4_def by (rule step_total) simp
  have s5: "add_desc (\<lambda>r. is_valid_tempat_lahir kota (TEMPAT_LAHIR r))
      (\<lambda>r. tempat_lahir_clause (TEMPAT_LAHIR r)) df4 = Inr df5"
    unfolding df5_def by (rule step_total) simp
  have s6: "add_desc (\<lambda>r. is_valid_date today (TANGGAL_LAHIR r))
      (\<lambda>r. tanggal_lahir_clause (TANGGAL_LAHIR r)) df5 = Inr df6"
    unfolding df6_def by (rule step_total) simp
  have final: "df6 = map (\<lambda>r. with_check_desc r (check_desc today kota r)) df"
    unfolding df6_def df5_def df4_def df3_def df2_def df1_def df0_def
    by (simp add: comp_def chain_row)
  have c: "map drop_check_desc (filter (all_valid today kota) df0)
      = filter (all_valid today kota) df"
    unfolding df0_def by (simp add: filter_map comp_def all_valid_with_check_desc)
  show ?thesis
    unfolding clean_data_def Let_def df0_def [symmetric]
    by (simp only: s1 s2 s3 s4 s5 s6 sum.case c final)
qed

subsection \<open>The partition\<close>

lemma clause_nonempty:
  "is_str x \<Longrightarrow> clause_text (kk_no_clause x) \<noteq> []"
  "is_str x \<Longrightarrow> clause_text (nik_clause x) \<noteq> []"
  "clause_text (custname_clause x) \<noteq> []"
  "clause_text (jenis_kelamin_clause x) \<noteq> []"
  "clause_text (tempat_lahir_clause x) \<noteq> []"
  "clause_text (tanggal_lahir_clause x) \<noteq> []"
  by (cases x; simp add: kk_no_clause_def nik_clause_def custname_clause_def
      jenis_kelamin_clause_def tempat_lahir_clause_def tanggal_lahir_clause_def)+

lemma check_desc_empty_iff:
  "str_ids r \<Longrightarrow> check_desc today kota r = [] \<longleftrightarrow> all_valid today kota r"
  by (auto simp: check_desc_def all_valid_def failed_clause_def str_ids_def clause_nonempty)

lemma clean_data_partition:
  assumes "clean_data today kota df = Inr (messy, clean)"
  shows "messy = map (\<lambda>r. with_check_desc r (check_desc today kota r))
                   (filter (\<lambda>r. \<not> all_valid today kota r) df)"
    and "clean = filter (all_valid today kota) df"
    and "list_all str_ids df"
proof -
  show s: "list_all str_ids df"
    using assms clean_data_err [of df today kota] by (cases "list_all str_ids df") auto
  from clean_data_ok [OF s, of today kota] assms
  have m: "messy = filter (\<lambda>r. Check_Desc r \<noteq> [])
                    (map (\<lambda>r. with_check_desc r (check_desc today kota r)) df)"
    and c: "clean = filter (all_valid today kota) df" by simp_all
  show "clean = filter (all_valid today kota) df" by (rule c)
  have "filter (\<lambda>r. check_desc today kota r \<noteq> []) df = filter (\<lambda>r. \<not> all_valid today kota r) df"
    using s by (intro filter_cong) (auto simp: list_all_iff check_desc_empty_iff)
  then show "messy = map (\<lambda>r. with_check_desc r (check_desc today kota r))
                   (filter (\<lambda>r. \<not> all_valid today kota r) df)"
    unfolding m by (simp add: filter_map comp_def)
qed

subsection \<open>Parsing a date\<close>

lemma day_field_no_slash: "day_field s = Some d \<Longrightarrow> list_all not_slash s"
  by (auto simp: day_field_def not_slash_def ascii_digit_def split: list.splits if_splits)

lemma month_field_no_slash: "month_field s = Some d \<Longrightarrow> list_all not_slash s"
  by (auto simp: month_field_def not_slash_def split: list.splits if_splits)

lemma split_at_slash:
  "list_all not_slash ds \<Longrightarrow> takeWhile not_slash (ds @ CHR ''/'' # r) = ds"
  "list_all not_slash ds \<Longrightarrow> dropWhile not_slash (ds @ CHR ''/'' # r) = CHR ''/'' # r"
  by (induction ds) (auto simp: not_slash_def)

lemma dropWhile_slash_hd: "dropWhile not_slash s = c # r \<Longrightarrow> c = CHR ''/''"
  using hd_dropWhile [of not_slash s] by (auto simp: not_slash_def)

lemma strptime_Some_iff:
  "strptime s = Some dt \<longleftrightarrow>
     (\<exists>ds ms ys d m y. s = ds @ ''/'' @ ms @ ''/'' @ ys \<and> day_field ds = Some d \<and>
        month_field ms = Some m \<and> year_field ys = Some y \<and> valid_date y m d \<and> dt = Date y m d)"
proof
  assume a: "strptime s = Some dt"
  from a obtain c1 r1 where r1: "dropWhile not_slash s = c1 # r1"
    by (auto simp: strptime_def split: list.splits)
  from a r1 obtain c2 r2 where r2: "dropWhile not_slash r1 = c2 # r2"
    by (auto simp: strptime_def split: list.splits)
  from a r1 r2 obtain d m y where
    f: "day_field (takeWhile not_slash s) = Some d" "month_field (takeWhile not_slash r1) = Some m"
       "year_field r2 = Some y" "valid_date y m d" "dt = Date y m d"
    by (auto simp: strptime_def split: option.splits if_splits)
  have "s = takeWhile not_slash s @ dropWhile not_slash s" by simp
  also have "\<dots> = takeWhile not_slash s @ ''/'' @ r1"
    using r1 dropWhile_slash_hd [OF r1] by simp
  also have "r1 = takeWhile not_slash r1 @ dropWhile not_slash r1" by simp
  also have "\<dots> = takeWhile not_slash r1 @ ''/'' @ r2"
    using r2 dropWhile_slash_hd [OF r2] by simp
  finally have "s = takeWhile not_slash s @ ''/'' @ takeWhile not_slash r1 @ ''/'' @ r2" .
  with f show "\<exists>ds ms ys d m y. s = ds @ ''/'' @ ms @ ''/'' @ ys \<and> day_field ds = Some d \<and>
        month_field ms = Some m \<and> year_field ys = Some y \<and> valid_date y m d \<and> dt = Date y m d"
    by blast
next
  assume "\<exists>ds ms ys d m y. s = ds @ ''/'' @ ms @ ''/'' @ ys \<and> day_field ds = Some d \<and>
        month_field ms = Some m \<and> year_field ys = Some y \<and> valid_date y m d \<and> dt = Date y m d"
  then obtain ds ms ys d m y where
    s: "s = ds @ ''/'' @ ms @ ''/'' @ ys" and f: "day_field ds = Some d" "month_field ms = Some m"
      "year_field ys = Some y" "valid_date y m d" "dt = Date y m d" by blast
  note nd = day_field_no_slash [OF f(1)] and nm = month_field_no_slash [OF f(2)]
  show "strptime s = Some dt"
    unfolding strptime_def s using f
    by (simp add: split_at_slash [OF nd] split_at_slash [OF nm])
qed

subsection \<open>Writing a date and reading it back\<close>

lemma show_nat_dig: "show_nat n = (if n < 10 then [dig n] else show_nat (n div 10) @ [dig (n mod 10)])"
  by (subst show_nat.simps) (simp add: dig_def)

lemma show_nat_1: "n < 10 \<Longrightarrow> show_nat n = [dig n]"
  by (subst show_nat_dig) simp

lemma show_nat_2: "10 \<le> n \<Longrightarrow> n < 100 \<Longrightarrow> show_nat n = [dig (n div 10), dig (n mod 10)]"
  by (subst show_nat_dig) (simp add: show_nat_1)

lemma show_nat_3:
  "100 \<le> n \<Longrightarrow> n < 1000 \<Longrightarrow> show_nat n = [dig (n div 100), dig (n div 10 mod 10), dig (n mod 10)]"
  by (subst show_nat_dig) (simp add: show_nat_2 div_mult2_eq [symmetric])

lemma show_nat_4:
  "1000 \<le> n \<Longrightarrow> n < 10000 \<Longrightarrow>
   show_nat n = [dig (n div 1000), dig (n div 100 mod 10), dig (n div 10 mod 10), dig (n mod 10)]"
  by (subst show_nat_dig) (simp add: show_nat_3 div_mult2_eq [symmetric])

lemma replicate_small:
  "replicate 3 c = [c, c, c]" "replicate 2 c = [c, c]" "replicate (Suc 0) c = [c]"
  by (simp_all add: numeral_3_eq_3 numeral_2_eq_2)

lemma zero_pad_2: "n < 100 \<Longrightarrow> zero_pad 2 n = [dig (n div 10), dig (n mod 10)]"
  by (cases "n < 10") (simp_all add: zero_pad_def show_nat_1 show_nat_2 dig_def replicate_small)

lemma zero_pad_4:
  assumes "n < 10000"
  shows "zero_pad 4 n = [dig (n div 1000), dig (n div 100 mod 10), dig (n div 10 mod 10), dig (n mod 10)]"
proof -
  consider "n < 10" | "10 \<le> n" "n < 100" | "100 \<le> n" "n < 1000" | "1000 \<le> n"
    by linarith
  then show ?thesis
  proof cases
    case 1
    then show ?thesis by (simp add: zero_pad_def show_nat_1 dig_def replicate_small)
  next
    case 2
    then show ?thesis by (simp add: zero_pad_def show_nat_2 dig_def replicate_small)
  next
    case 3
    then show ?thesis by (simp add: zero_pad_def show_nat_3 dig_def replicate_small)
  next
    case 4
    then show ?thesis using assms by (simp add: zero_pad_def show_nat_4)
  qed
qed

lemma dig_facts:
  assumes "k < 10"
  shows "dig k \<in> set ''0123456789''" and "digit_value (dig k) = k"
proof -
  from assms have "k \<in> {0, 1, 2, 3, 4, 5, 6, 7, 8, 9}" by auto
  then show "dig k \<in> set ''0123456789''" and "digit_value (dig k) = k"
    by (auto simp: dig_def digit_value_def)
qed

lemma dig_ascii:
  assumes "k < 10"
  shows "ascii_digit (dig k)"
  using dig_facts(1) [OF assms] by (simp add: ascii_digit_def)

lemma year_field_digits:
  "a < 10 \<Longrightarrow> b < 10 \<Longrightarrow> c < 10 \<Longrightarrow> d < 10 \<Longrightarrow>
   year_field [dig a, dig b, dig c, dig d] = Some (1000 * a + 100 * b + 10 * c + d)"
  by (simp add: year_field_def dig_ascii dig_facts(2))

lemma four_digits:
  "1000 * (y div 1000) + 100 * (y div 100 mod 10) + 10 * (y div 10 mod 10) + y mod 10 = (y::nat)"
proof -
  have q2: "y div 100 = y div 10 div 10" by (simp add: div_mult2_eq [symmetric])
  have q3: "y div 1000 = y div 100 div 10" by (simp add: div_mult2_eq [symmetric])
  have a: "y = 10 * (y div 10) + y mod 10" by simp
  have b: "y div 10 = 10 * (y div 100) + y div 10 mod 10" unfolding q2 by simp
  have c: "y div 100 = 10 * (y div 1000) + y div 100 mod 10" unfolding q3 by simp
  from a b c show ?thesis by linarith
qed

lemma year_field_zero_pad: "y < 10000 \<Longrightarrow> year_field (zero_pad 4 y) = Some y"
proof -
  assume a: "y < 10000"
  have d: "y div 1000 < 10" "y div 100 mod 10 < 10" "y div 10 mod 10 < 10" "y mod 10 < 10"
    using a by simp_all
  show ?thesis
    unfolding zero_pad_4 [OF a] year_field_digits [OF d] four_digits by (rule refl)
qed

lemma day_field_table: "list_all (\<lambda>n. day_field (zero_pad 2 n) = Some n) [1..<32]"
  by code_simp

lemma month_field_table: "list_all (\<lambda>n. month_field (zero_pad 2 n) = Some n) [1..<13]"
  by code_simp

lemma day_field_zero_pad: "1 \<le> d \<Longrightarrow> d \<le> 31 \<Longrightarrow> day_field (zero_pad 2 d) = Some d"
  using day_field_table by (simp add: list_all_iff)

lemma month_field_zero_pad: "1 \<le> m \<Longrightarrow> m \<le> 12 \<Longrightarrow> month_field (zero_pad 2 m) = Some m"
  using month_field_table by (simp add: list_all_iff)

lemma days_in_month_le: "days_in_month y m \<le> 31"
  by (simp add: days_in_month_def)

lemma strptime_ddmmyyyy:
  assumes "valid_date y m d"
  shows "strptime (ddmmyyyy (Date y m d)) = Some (Date y m d)"
proof -
  from assms have d: "1 \<le> d" "d \<le> 31" and m: "1 \<le> m" "m \<le> 12" and y: "y < 10000"
    using days_in_month_le [of y m] by (auto simp: valid_date_def)
  have "\<exists>ds ms ys d' m' y'. ddmmyyyy (Date y m d) = ds @ ''/'' @ ms @ ''/'' @ ys \<and>
      day_field ds = Some d' \<and> month_field ms = Some m' \<and> year_field ys = Some y' \<and>
      valid_date y' m' d' \<and> Date y m d = Date y' m' d'"
    using day_field_zero_pad [OF d] month_field_zero_pad [OF m] year_field_zero_pad [OF y] assms
    unfolding ddmmyyyy_def date.sel by blast
  then show ?thesis by (simp only: strptime_Some_iff)
qed

lemma date_le_refl: "date_le d d"
  by (simp add: date_le_def)

lemma is_valid_date_iff:
  "is_valid_date today x \<longleftrightarrow>
     (\<exists>d. ((\<exists>s. x = Str s \<and> strptime s = Some d) \<or> (\<exists>h m s. x = Timestamp d h m s)) \<and> date_le d today)"
  by (cases x) (auto split: option.splits)

subsection \<open>The summary\<close>

lemma percent_simps:
  "b \<noteq> 0 \<Longrightarrow> percent a b = Inr (Rounded a b)" "percent a 0 = Inl ZeroDivisionError"
  by (simp_all add: percent_def)

lemma total_invalid_eq: "total_invalid (statistics messy_df clean_df tot) = int (length messy_df) * 6"
  by (simp add: statistics_def shape_def required_columns_def Let_def)

lemma gen_err:
  "tot = 0 \<or> messy_df = [] \<Longrightarrow>
     generate_summary_excel to_excel messy_df clean_df tot = Inl ZeroDivisionError"
  by (auto simp: generate_summary_excel_def Let_def percent_def total_invalid_eq)

lemma gen_ok:
  assumes "tot \<noteq> 0" "messy_df \<noteq> []"
  shows "generate_summary_excel to_excel messy_df clean_df tot =
    (let c = statistics messy_df clean_df tot in
     to_excel \<lparr>summary_counts = c,
          summary_percentages =
            [Hundred, Rounded (messy_data c) tot, Rounded (clean_data' c) tot, Hundred,
             Rounded (clean_invalid c) (total_invalid c), Rounded (messy_invalid c) (total_invalid c),
             Rounded (invalid_kk c) (total_invalid c), Rounded (invalid_nik c) (total_invalid c),
             Rounded (invalid_name c) (total_invalid c), Rounded (invalid_gender c) (total_invalid c),
             Rounded (invalid_places c) (total_invalid c), Rounded (invalid_date c) (total_invalid c)],
          messy_sheet = messy_df, clean_sheet = clean_df\<rparr>)"
proof -
  have "total_invalid (statistics messy_df clean_df tot) \<noteq> 0"
    using assms(2) by (simp add: total_invalid_eq)
  then show ?thesis
    using assms(1) by (simp add: generate_summary_excel_def Let_def percent_def)
qed

lemma stats_ids:
  "messy_invalid (statistics m c t) = invalid_kk (statistics m c t) + invalid_nik (statistics m c t)
     + invalid_name (statistics m c t) + invalid_gender (statistics m c t)
     + invalid_places (statistics m c t) + invalid_date (statistics m c t)"
  "clean_invalid (statistics m c t) = total_invalid (statistics m c t) - messy_invalid (statistics m c t)"
  by (simp_all add: statistics_def shape_def Let_def)

subsection \<open>The identifier predicates\<close>

lemma is_digit_char_iff:
  "is_digit_char c \<longleftrightarrow> spec_decimal_digit c \<or> c = CHR 0xB2 \<or> c = CHR 0xB3 \<or> c = CHR 0xB9"
  by (simp add: is_digit_char_def spec_decimal_digit_def)

lemma is_valid_nik_eq: "is_valid_nik = is_valid_kk_no"
proof
  fix x show "is_valid_nik x = is_valid_kk_no x" by (cases x) simp_all
qed

lemma is_valid_kk_no_iff:
  "is_valid_kk_no x \<longleftrightarrow>
     (\<exists>s. x = Str s \<and> list_all is_digit_char s \<and> length s = 16 \<and> drop 12 s \<noteq> ''0000'')"
  by (cases x) (auto simp: py_isdigit_def last4_def)

subsection \<open>The example batch\<close>

lemma example_rows:
  "str_ids ok_row" "str_ids short_ids_row" "str_ids digit_name_row"
  "all_valid (Date 2026 11 4) [''JAKARTA''] ok_row"
  "\<not> all_valid (Date 2026 11 4) [''JAKARTA''] short_ids_row"
  "\<not> all_valid (Date 2026 11 4) [''JAKARTA''] digit_name_row"
  "check_desc (Date 2026 11 4) [''JAKARTA''] short_ids_row =
     ''Invalid KK_NO (length: 2, digits only: True, last_digits: 12); '' @
     ''Invalid NIK (length: 3, digits only: True, last_digits: 345); ''"
  "check_desc (Date 2026 11 4) [''JAKARTA''] digit_name_row =
     ''Invalid CUSTNAME (contains special characters or digits: Budi123); ''"
  by code_simp+

lemma example_clean_data:
  "clean_data (Date 2026 11 4) [''JAKARTA''] example_batch =
     Inr (example_messy, replicate 90 ok_row)"
proof -
  have s: "list_all str_ids example_batch"
    by (simp add: example_batch_def list_all_iff example_rows)
  have e: "check_desc (Date 2026 11 4) [''JAKARTA''] ok_row = []"
    by (simp add: check_desc_empty_iff example_rows)
  show ?thesis
    unfolding clean_data_ok [OF s]
    by (simp add: example_batch_def example_messy_def example_rows e)
qed

subsection \<open>The format \<^verbatim>\<open>DD/MM/YYYY\<close>\<close>

lemma dig_spec: "k < 10 \<Longrightarrow> spec_decimal_digit (dig k)"
  using dig_facts(1) [of k] by (simp add: spec_decimal_digit_def)

lemma spec_ddmmyyyy_ddmmyyyy:
  assumes "valid_date y m d"
  shows "spec_ddmmyyyy (ddmmyyyy (Date y m d))"
proof -
  from assms have d: "d < 100" and m: "m < 100" and y: "y < 10000"
    using days_in_month_le [of y m] by (auto simp: valid_date_def)
  have q: "d div 10 < 10" "m div 10 < 10" "y div 1000 < 10"
    using d m y by simp_all
  show ?thesis
    unfolding ddmmyyyy_def date.sel zero_pad_2 [OF d] zero_pad_2 [OF m] zero_pad_4 [OF y]
    by (simp add: spec_ddmmyyyy_def dig_spec q)
qed

lemma strptime_iso_format: "strptime ''2000-01-01'' = None"
  by code_simp

subsection \<open>The city list\<close>

lemma py_replace_prefix:
  "old \<noteq> [] \<Longrightarrow> py_replace old new (old @ s) = new @ py_replace old new s"
  by (cases old) simp_all

lemma py_replace_absent:
  "\<not> py_contains old s \<Longrightarrow> py_replace old new s = s"
  by (induction s) simp_all

lemma prefix_of_longer:
  "prefix xs (ys @ zs) \<Longrightarrow> length xs \<le> length ys \<Longrightarrow> prefix xs ys"
  by (auto simp: prefix_append)

lemma py_replace_leftmost:
  assumes "old \<noteq> []"
  shows "\<not> py_contains old (p @ butlast old) \<Longrightarrow>
     py_replace old new (p @ old @ s) = p @ new @ py_replace old new s"
proof (induction p)
  case Nil
  show ?case using py_replace_prefix [OF assms] by simp
next
  case (Cons c p)
  from Cons.prems have n: "\<not> prefix old (c # p @ butlast old)"
    and r: "\<not> py_contains old (p @ butlast old)" by simp_all
  have "\<not> prefix old (c # p @ old @ s)"
  proof
    assume a: "prefix old (c # p @ old @ s)"
    have "c # p @ old @ s = (c # p @ butlast old) @ (last old # s)"
      using assms by simp
    with a have "prefix old ((c # p @ butlast old) @ (last old # s))" by simp
    moreover have "length old \<le> length (c # p @ butlast old)" by simp
    ultimately have "prefix old (c # p @ butlast old)" by (rule prefix_of_longer)
    with n show False by simp
  qed
  then show ?case using Cons.IH [OF r] by simp
qed

lemma those_map_if:
  "those (map (\<lambda>s. if P s then Some (f s) else None) xs) =
     (if list_all P xs then Some (map f xs) else None)"
  by (induction xs) simp_all

lemma kota_indonesia_city_desc:
  "kota_indonesia (CITY_DESC col) opt =
     (if list_all (\<lambda>s. same_upper (city_desc_replace s)) col
      then Some (map (\<lambda>s. py_upper (city_desc_replace s)) col @
                 (if opt then new_kota else []))
      else None)"
  unfolding kota_indonesia_def city_df.case pd_str_upper_def those_map_if by simp

lemma kota_indonesia_first_column:
  "kota_indonesia (First_column col) opt =
     (if list_all (\<lambda>e. upper_in_range (py_strip e)) col
      then Some (map (\<lambda>e. py_upper (py_strip e)) col @ (if opt then new_kota else []))
      else None)"
proof -
  have s: "strip_upper =
      (\<lambda>e. if upper_in_range (py_strip e) then Some (py_upper (py_strip e)) else None)"
    by (rule ext) (simp add: strip_upper_def)
  show ?thesis
    unfolding kota_indonesia_def city_df.case s those_map_if by simp
qed

lemma kota_examples:
  "kota_indonesia (CITY_DESC [''Kota Jakarta'', ''Kabupaten Bandung'']) False
     = Some [''JAKARTA'', ''BANDUNG'']"
  "kota_indonesia (CITY_DESC [''Kota Jakarta'', ''Kabupaten Bandung'']) True
     = Some ([''JAKARTA'', ''BANDUNG''] @ new_kota)"
  "kota_indonesia (First_column [''Kota Jakarta'', ''Kabupaten Bandung'']) False
     = Some [''KOTA JAKARTA'', ''KABUPATEN BANDUNG'']"
  "kota_indonesia (CITY_DESC [''Kota Kota Baru'']) False = Some [''BARU'']"
  "kota_indonesia (CITY_DESC [''Pulau Kota Baru '']) False = Some [''PULAU BARU '']"
  "kota_indonesia (CITY_DESC [''Kota Jakarta '']) False = Some [''JAKARTA '']"
  "kota_indonesia (CITY_DESC [''kota Jakarta'']) False = Some [''KOTA JAKARTA'']"
  "kota_indonesia (CITY_DESC [''KKota ab Baru'']) False = Some [''BARU'']"
  "kota_indonesia (CITY_DESC [''KKab ota Baru'']) False = Some [''KOTA BARU'']"
  "kota_indonesia (CITY_DESC [''Kota Bandung'', ''Kabupaten Bandung'']) False
     = Some [''BANDUNG'', ''BANDUNG'']"
  "kota_indonesia (First_column ['' Jakarta '']) False = Some [''JAKARTA'']"
  by code_simp+

lemma spec_examples:
  "map spec_normalize [''Kota Jakarta'', ''Kabupaten Bandung''] = [''JAKARTA'', ''BANDUNG'']"
  "spec_normalize ''Kota Kota Baru'' = ''KOTA BARU''"
  "spec_normalize ''Kota Jakarta '' = ''JAKARTA''"
  by code_simp+

lemma upper_examples:
  "py_upper ''Jakarta'' = ''JAKARTA''" "py_upper ''jakarta'' = ''JAKARTA''"
  "py_upper ''JAKARTA'' = ''JAKARTA''" "py_upper ''bandung'' = ''BANDUNG''"
  "py_upper ''Surabaya'' = ''SURABAYA''"
  "''SURABAYA'' \<in> set new_kota"
  by code_simp+

lemma is_valid_tempat_lahir_iff:
  "is_valid_tempat_lahir kota x \<longleftrightarrow> (\<exists>s. x = Str s \<and> py_upper s \<in> set kota)"
  by (cases x) simp_all

section \<open>The claims\<close>

subsection \<open>C1: the partition into messy and clean rows\<close>

text \<open>
  C1 says that for every batch \<^verbatim>\<open>clean_data\<close> puts each row in exactly one of its two
  outputs. Lemma \<open>clean_data_ok\<close> and lemma \<open>clean_data_partition\<close> show that
  it does so for a batch whose \<^verbatim>\<open>KK_NO\<close> and \<^verbatim>\<open>NIK\<close> cells are all strings: the messy rows
  are those on which \<^const>\<open>all_valid\<close> fails, each with its non-empty diagnostic, and the
  clean rows the others. Lemma \<open>clean_data_err\<close> shows that for every other batch the
  call raises \<^verbatim>\<open>TypeError\<close>, and no row is placed anywhere. The theorem is the smallest
  such batch: a row that passes, and the same row with its \<^verbatim>\<open>NIK\<close> cell missing.
\<close>

theorem clean_data_raises_on_missing_nik:
  "clean_data (Date 2026 11 4) [''JAKARTA''] [ok_row, ok_row\<lparr>NIK := NaN\<rparr>] = Inl TypeError"
  by code_simp

subsection \<open>C2: the predicates on \<^verbatim>\<open>KK_NO\<close> and \<^verbatim>\<open>NIK\<close>\<close>

text \<open>
  C2 as the specification words it, with a value that consists only of decimal digits,
  fails: \<^verbatim>\<open>str.isdigit\<close> also holds of the superscript digits, so a string of fifteen
  decimal digits and a superscript two passes.
\<close>

theorem kk_no_decimal_counterexample:
  "is_valid_kk_no (Str (''123456789012345'' @ [CHR 0xB2])) \<and>
   \<not> list_all spec_decimal_digit (''123456789012345'' @ [CHR 0xB2])"
  by (simp add: py_isdigit_def is_digit_char_def last4_def spec_decimal_digit_def)

text \<open>
  C2, amended: the two predicates are the same function. A value passes iff it is a
  string of sixteen characters, each a decimal digit or one of the superscript digits
  U+00B2, U+00B3, U+00B9, whose last four characters are not \<^verbatim>\<open>0000\<close>. The examples of
  the claim come out as it says.
\<close>

theorem kk_no_nik_predicate:
  "is_valid_nik = is_valid_kk_no \<and>
   (is_valid_kk_no x \<longleftrightarrow>
      (\<exists>s. x = Str s \<and> length s = 16 \<and> drop 12 s \<noteq> ''0000'' \<and>
         list_all (\<lambda>c. spec_decimal_digit c \<or> c = CHR 0xB2 \<or> c = CHR 0xB3 \<or> c = CHR 0xB9) s)) \<and>
   is_valid_kk_no (Str ''1234567890123456'') \<and>
   \<not> is_valid_kk_no (Str ''123456789012345'') \<and>
   \<not> is_valid_kk_no (Str ''1234567890120000'') \<and>
   \<not> is_valid_kk_no (Str ''12345678901234AB'') \<and>
   \<not> is_valid_kk_no (Integer 1234567890123456)"
proof -
  have a: "is_valid_kk_no (Str ''1234567890123456'')" by code_simp
  have b: "\<not> is_valid_kk_no (Str ''123456789012345'')" by code_simp
  have c: "\<not> is_valid_kk_no (Str ''1234567890120000'')" by code_simp
  have d: "\<not> is_valid_kk_no (Str ''12345678901234AB'')" by code_simp
  have e: "\<not> is_valid_kk_no (Integer 1234567890123456)" by simp
  have f: "is_valid_kk_no x \<longleftrightarrow>
      (\<exists>s. x = Str s \<and> length s = 16 \<and> drop 12 s \<noteq> ''0000'' \<and>
         list_all (\<lambda>c. spec_decimal_digit c \<or> c = CHR 0xB2 \<or> c = CHR 0xB3 \<or> c = CHR 0xB9) s)"
    unfolding is_valid_kk_no_iff is_digit_char_iff by blast
  from is_valid_nik_eq a b c d e f show ?thesis by blast
qed

subsection \<open>C3: a batch with no rows or no messy rows\<close>

text \<open>
  C3 says that the summary reports 0 per cent where the total count or the count of messy
  rows is zero. \<^verbatim>\<open>generate_summary_excel\<close> has no such guard: it divides by
  \<^verbatim>\<open>total_data\<close> and by \<^verbatim>\<open>total_invalid\<close> as they are, and raises
  \<^verbatim>\<open>ZeroDivisionError\<close> on a batch of one clean row, on the empty batch, and on a messy
  row with a total count of zero. The division comes before the workbook is written, so
  the writer does not matter.
\<close>

theorem summary_zero_division_counterexample:
  "generate_summary_excel accepting_writer [] [ok_row] 1 = Inl ZeroDivisionError \<and>
   generate_summary_excel accepting_writer [] [] 0 = Inl ZeroDivisionError \<and>
   generate_summary_excel accepting_writer
     [with_check_desc digit_name_row
        ''Invalid CUSTNAME (contains special characters or digits: Budi123); '']
     [] 0 = Inl ZeroDivisionError"
  by (simp add: gen_err)

text \<open>
  C3, amended: where the total count is zero or there is no messy row,
  \<^verbatim>\<open>generate_summary_excel\<close> raises \<^verbatim>\<open>ZeroDivisionError\<close>, whatever the writer. On every
  other batch no division fails: the workbook, whose percentage figures are the two literal
  hundreds and the rounded quotients of the counts by the total count and by six times the
  number of messy rows, is handed to the writer, and the outcome of the call is the
  writer's, the bytes or an exception of its own.
\<close>

theorem summary_division:
  "generate_summary_excel to_excel messy_df clean_df tot =
     (if tot = 0 \<or> messy_df = [] then Inl ZeroDivisionError
      else to_excel \<lparr>summary_counts = statistics messy_df clean_df tot,
          summary_percentages =
            [Hundred,
             Rounded (int (length messy_df)) tot, Rounded (int (length clean_df)) tot,
             Hundred,
             Rounded (clean_invalid (statistics messy_df clean_df tot))
               (int (length messy_df) * 6),
             Rounded (messy_invalid (statistics messy_df clean_df tot))
               (int (length messy_df) * 6),
             Rounded (count_contains ''Invalid KK_NO'' messy_df) (int (length messy_df) * 6),
             Rounded (count_contains ''Invalid NIK'' messy_df) (int (length messy_df) * 6),
             Rounded (count_contains ''Invalid CUSTNAME'' messy_df) (int (length messy_df) * 6),
             Rounded (count_contains ''Invalid JENIS_KELAMIN'' messy_df)
               (int (length messy_df) * 6),
             Rounded (count_contains ''Invalid TEMPAT_LAHIR'' messy_df)
               (int (length messy_df) * 6),
             Rounded (count_contains ''Invalid TANGGAL_LAHIR'' messy_df)
               (int (length messy_df) * 6)],
          messy_sheet = messy_df, clean_sheet = clean_df\<rparr>)"
proof (cases "tot = 0 \<or> messy_df = []")
  case True
  then show ?thesis by (simp add: gen_err)
next
  case False
  then have a: "tot \<noteq> 0" "messy_df \<noteq> []" by simp_all
  have f: "messy_data (statistics messy_df clean_df tot) = int (length messy_df)"
    "clean_data' (statistics messy_df clean_df tot) = int (length clean_df)"
    "invalid_kk (statistics messy_df clean_df tot) = count_contains ''Invalid KK_NO'' messy_df"
    "invalid_nik (statistics messy_df clean_df tot) = count_contains ''Invalid NIK'' messy_df"
    "invalid_name (statistics messy_df clean_df tot)
       = count_contains ''Invalid CUSTNAME'' messy_df"
    "invalid_gender (statistics messy_df clean_df tot)
       = count_contains ''Invalid JENIS_KELAMIN'' messy_df"
    "invalid_places (statistics messy_df clean_df tot)
       = count_contains ''Invalid TEMPAT_LAHIR'' messy_df"
    "invalid_date (statistics messy_df clean_df tot)
       = count_contains ''Invalid TANGGAL_LAHIR'' messy_df"
    by (simp_all add: statistics_def shape_def Let_def)
  show ?thesis
    unfolding gen_ok [OF a] Let_def total_invalid_eq f using False by simp
qed

subsection \<open>C4: a cell that is not a string\<close>

text \<open>
  C4 says that \<^verbatim>\<open>clean_data\<close> never raises, also on a \<^verbatim>\<open>KK_NO\<close> or \<^verbatim>\<open>NIK\<close> cell that is
  not a string or is shorter than four characters. The clause takes the length and the
  digit test from \<^verbatim>\<open>str(x)\<close> but slices \<^verbatim>\<open>x\<close> itself: on the integer 1234567890123456
  the call raises \<^verbatim>\<open>TypeError\<close>. On the string \<^verbatim>\<open>12\<close>, shorter than four characters, it
  reports the three facts as the claim says.
\<close>

theorem clean_data_raises_on_integer_kk_no:
  "clean_data (Date 2026 11 4) [''JAKARTA''] [ok_row\<lparr>KK_NO := Integer 1234567890123456\<rparr>]
     = Inl TypeError \<and>
   clean_data (Date 2026 11 4) [''JAKARTA''] [ok_row\<lparr>KK_NO := Str ''12''\<rparr>]
     = Inr ([with_check_desc (ok_row\<lparr>KK_NO := Str ''12''\<rparr>)
              ''Invalid KK_NO (length: 2, digits only: True, last_digits: 12); ''], [])"
proof -
  have a: "clean_data (Date 2026 11 4) [''JAKARTA''] [ok_row\<lparr>KK_NO := Integer 1234567890123456\<rparr>]
     = Inl TypeError"
    by (simp add: clean_data_def ok_row_def with_check_desc_def row.defs checked_row.defs
        kk_no_clause_def)
  have b: "clean_data (Date 2026 11 4) [''JAKARTA''] [ok_row\<lparr>KK_NO := Str ''12''\<rparr>]
     = Inr ([with_check_desc (ok_row\<lparr>KK_NO := Str ''12''\<rparr>)
              ''Invalid KK_NO (length: 2, digits only: True, last_digits: 12); ''], [])"
    by code_simp
  from a b show ?thesis by (rule conjI)
qed

subsection \<open>C5: the city list\<close>

text \<open>
  C5 says that every entry, from a column \<^verbatim>\<open>CITY_DESC\<close> or from the first column of a
  table without one, loses the first occurrence of each of the three literals, is trimmed
  and upper-cased, and that the result is a set. The program departs from each of these:
  the first-column branch removes no literal, so from \<^verbatim>\<open>Kota Jakarta\<close>,
  \<^verbatim>\<open>Kabupaten Bandung\<close> the birth place \<^verbatim>\<open>JAKARTA\<close> fails; the \<^verbatim>\<open>CITY_DESC\<close> branch
  removes the second occurrence of a literal as well, and does not trim; and the result is
  a list, in which the same name stands twice.
\<close>

theorem city_list_counterexample:
  "kota_indonesia (First_column [''Kota Jakarta'', ''Kabupaten Bandung'']) False
     = Some [''KOTA JAKARTA'', ''KABUPATEN BANDUNG''] \<and>
   map spec_normalize [''Kota Jakarta'', ''Kabupaten Bandung''] = [''JAKARTA'', ''BANDUNG''] \<and>
   \<not> is_valid_tempat_lahir [''KOTA JAKARTA'', ''KABUPATEN BANDUNG''] (Str ''JAKARTA'') \<and>
   kota_indonesia (CITY_DESC [''Kota Kota Baru'']) False = Some [''BARU''] \<and>
   spec_normalize ''Kota Kota Baru'' = ''KOTA BARU'' \<and>
   kota_indonesia (CITY_DESC [''Kota Jakarta '']) False = Some [''JAKARTA ''] \<and>
   spec_normalize ''Kota Jakarta '' = ''JAKARTA'' \<and>
   kota_indonesia (CITY_DESC [''Kota Bandung'', ''Kabupaten Bandung'']) False
     = Some [''BANDUNG'', ''BANDUNG''] \<and>
   spec_city_set [''Kota Bandung'', ''Kabupaten Bandung''] = {''BANDUNG''}"
proof -
  have a: "\<not> is_valid_tempat_lahir [''KOTA JAKARTA'', ''KABUPATEN BANDUNG''] (Str ''JAKARTA'')"
    by (simp add: upper_examples)
  have b: "spec_city_set [''Kota Bandung'', ''Kabupaten Bandung''] = {''BANDUNG''}"
    by code_simp
  from a b kota_examples(3,4,6,10) spec_examples show ?thesis by simp
qed

text \<open>
  C5, amended. From an entry of a column \<^verbatim>\<open>CITY_DESC\<close> every occurrence of
  \<^verbatim>\<open>Kota \<close>, then every occurrence of \<^verbatim>\<open>Kabupaten \<close>, then every occurrence of
  \<^verbatim>\<open>Kab \<close> is removed, each in one pass from the left: an entry without the literal is
  left as it is, and at the leftmost occurrence the literal is dropped and the pass goes
  on behind it. The match is case-sensitive, the order of the three passes matters, and
  the rest is upper-cased without trimming. An entry of the first column of a table
  without \<^verbatim>\<open>CITY_DESC\<close> is trimmed and upper-cased, and no literal is removed. The
  result is a list with one entry for each entry of the column, in its order, duplicates
  kept, followed by the supplementary names when they are asked for. From the column
  \<^verbatim>\<open>CITY_DESC\<close> with \<^verbatim>\<open>Kota Jakarta\<close> and \<^verbatim>\<open>Kabupaten Bandung\<close> the list is
  \<^verbatim>\<open>JAKARTA\<close>, \<^verbatim>\<open>BANDUNG\<close>: a birth place passes iff it is a string whose upper-case
  form is one of the two, and \<^verbatim>\<open>Surabaya\<close> fails, unless the supplementary names are
  added. An entry whose upper-case form lies outside the modelled range, or depends on
  the version of pandas, is left open.
\<close>

theorem kota_indonesia_normalization:
  "(\<not> py_contains lit s \<longrightarrow> py_replace lit new s = s) \<and>
   (lit \<noteq> [] \<and> \<not> py_contains lit (p @ butlast lit) \<longrightarrow>
      py_replace lit new (p @ lit @ s) = p @ new @ py_replace lit new s) \<and>
   kota_indonesia (CITY_DESC col) opt =
     (if list_all (\<lambda>e. same_upper (city_desc_replace e)) col
      then Some (map (\<lambda>e. py_upper (py_replace ''Kab '' [] (py_replace ''Kabupaten '' []
                              (py_replace ''Kota '' [] e)))) col @
                 (if opt then new_kota else []))
      else None) \<and>
   kota_indonesia (First_column col) opt =
     (if list_all (\<lambda>e. upper_in_range (py_strip e)) col
      then Some (map (\<lambda>e. py_upper (py_strip e)) col @ (if opt then new_kota else []))
      else None) \<and>
   kota_indonesia (CITY_DESC [''Kota Kota Baru'']) False = Some [''BARU''] \<and>
   kota_indonesia (CITY_DESC [''Pulau Kota Baru '']) False = Some [''PULAU BARU ''] \<and>
   kota_indonesia (CITY_DESC [''Kota Jakarta '']) False = Some [''JAKARTA ''] \<and>
   kota_indonesia (CITY_DESC [''kota Jakarta'']) False = Some [''KOTA JAKARTA''] \<and>
   kota_indonesia (CITY_DESC [''KKota ab Baru'']) False = Some [''BARU''] \<and>
   kota_indonesia (CITY_DESC [''KKab ota Baru'']) False = Some [''KOTA BARU''] \<and>
   kota_indonesia (CITY_DESC [''Kota Bandung'', ''Kabupaten Bandung'']) False
     = Some [''BANDUNG'', ''BANDUNG''] \<and>
   kota_indonesia (First_column [''Kota Jakarta'', ''Kabupaten Bandung'']) False
     = Some [''KOTA JAKARTA'', ''KABUPATEN BANDUNG''] \<and>
   kota_indonesia (First_column ['' Jakarta '']) False = Some [''JAKARTA''] \<and>
   kota_indonesia (CITY_DESC [''Kota Jakarta'', ''Kabupaten Bandung'']) False
     = Some [''JAKARTA'', ''BANDUNG''] \<and>
   (is_valid_tempat_lahir [''JAKARTA'', ''BANDUNG''] x \<longleftrightarrow>
      (\<exists>v. x = Str v \<and> (py_upper v = ''JAKARTA'' \<or> py_upper v = ''BANDUNG''))) \<and>
   is_valid_tempat_lahir [''JAKARTA'', ''BANDUNG''] (Str ''Jakarta'') \<and>
   is_valid_tempat_lahir [''JAKARTA'', ''BANDUNG''] (Str ''JAKARTA'') \<and>
   is_valid_tempat_lahir [''JAKARTA'', ''BANDUNG''] (Str ''bandung'') \<and>
   \<not> is_valid_tempat_lahir [''JAKARTA'', ''BANDUNG''] (Str ''Surabaya'') \<and>
   kota_indonesia (CITY_DESC [''Kota Jakarta'', ''Kabupaten Bandung'']) True
     = Some ([''JAKARTA'', ''BANDUNG''] @ new_kota) \<and>
   is_valid_tempat_lahir ([''JAKARTA'', ''BANDUNG''] @ new_kota) (Str ''Surabaya'')"
proof -
  have a: "\<not> py_contains lit s \<longrightarrow> py_replace lit new s = s"
    by (simp add: py_replace_absent)
  have b: "lit \<noteq> [] \<and> \<not> py_contains lit (p @ butlast lit) \<longrightarrow>
      py_replace lit new (p @ lit @ s) = p @ new @ py_replace lit new s"
    using py_replace_leftmost [of lit p new s] by blast
  have c: "kota_indonesia (CITY_DESC col) opt =
     (if list_all (\<lambda>e. same_upper (city_desc_replace e)) col
      then Some (map (\<lambda>e. py_upper (py_replace ''Kab '' [] (py_replace ''Kabupaten '' []
                              (py_replace ''Kota '' [] e)))) col @
                 (if opt then new_kota else []))
      else None)"
    unfolding kota_indonesia_city_desc by (simp add: city_desc_replace_def)
  note d = kota_indonesia_first_column [of col opt]
  have e: "is_valid_tempat_lahir [''JAKARTA'', ''BANDUNG''] x \<longleftrightarrow>
      (\<exists>v. x = Str v \<and> (py_upper v = ''JAKARTA'' \<or> py_upper v = ''BANDUNG''))"
    unfolding is_valid_tempat_lahir_iff by auto
  have f: "is_valid_tempat_lahir [''JAKARTA'', ''BANDUNG''] (Str ''Jakarta'')"
    "is_valid_tempat_lahir [''JAKARTA'', ''BANDUNG''] (Str ''JAKARTA'')"
    "is_valid_tempat_lahir [''JAKARTA'', ''BANDUNG''] (Str ''bandung'')"
    "\<not> is_valid_tempat_lahir [''JAKARTA'', ''BANDUNG''] (Str ''Surabaya'')"
    by (simp_all add: upper_examples)
  have g: "is_valid_tempat_lahir ([''JAKARTA'', ''BANDUNG''] @ new_kota) (Str ''Surabaya'')"
    using upper_examples(6) by (simp add: upper_examples(5))
  from a b c d e f g kota_examples show ?thesis by blast
qed

text \<open>
  The hypotheses on \<^const>\<open>py_replace\<close> hold of \<^verbatim>\<open>Baru\<close>, which holds no \<^verbatim>\<open>Kota \<close>,
  and of \<^verbatim>\<open>Pulau Kota Kota Baru\<close>, whose two occurrences are both removed.
\<close>

theorem kota_indonesia_normalization_witness:
  "\<not> py_contains ''Kota '' ''Baru'' \<and> py_replace ''Kota '' [] ''Baru'' = ''Baru'' \<and>
   ''Kota '' \<noteq> [] \<and> \<not> py_contains ''Kota '' (''Pulau '' @ butlast ''Kota '') \<and>
   py_replace ''Kota '' [] (''Pulau '' @ ''Kota '' @ ''Kota Baru'') = ''Pulau Baru''"
proof -
  have n: "\<not> py_contains ''Kota '' ''Baru''"
    "\<not> py_contains ''Kota '' (''Pulau '' @ butlast ''Kota '')" by code_simp+
  have r: "py_replace ''Kota '' [] ''Kota Baru'' = ''Baru''" by code_simp
  from kota_indonesia_normalization [where lit = "''Kota ''" and s = "''Baru''" and new = "[]"]
    n(1)
  have a: "py_replace ''Kota '' [] ''Baru'' = ''Baru''" by blast
  from kota_indonesia_normalization
    [where lit = "''Kota ''" and s = "''Kota Baru''" and new = "[]" and p = "''Pulau ''"] n(2)
  have "py_replace ''Kota '' [] (''Pulau '' @ ''Kota '' @ ''Kota Baru'')
    = ''Pulau '' @ [] @ py_replace ''Kota '' [] ''Kota Baru''" by blast
  then have b: "py_replace ''Kota '' [] (''Pulau '' @ ''Kota '' @ ''Kota Baru'') = ''Pulau Baru''"
    unfolding r by simp
  from n a b show ?thesis by simp
qed

subsection \<open>C6: the predicate on the birth date\<close>

text \<open>
  C6 as the specification words it, with a string in the format \<^verbatim>\<open>DD/MM/YYYY\<close>, fails:
  \<^verbatim>\<open>strptime\<close> with \<^verbatim>\<open>%d/%m/%Y\<close> also reads a day and a month of one digit, so
  \<^verbatim>\<open>1/1/2000\<close> passes.
\<close>

theorem ddmmyyyy_counterexample:
  "is_valid_date (Date 2026 11 4) (Str ''1/1/2000'') \<and> \<not> spec_ddmmyyyy ''1/1/2000''"
  by code_simp

text \<open>
  C6, amended: a value passes iff it is a string that \<^verbatim>\<open>strptime\<close> reads with
  \<^verbatim>\<open>%d/%m/%Y\<close> (a day, a slash, a month, a slash and a year of four digits that make a
  real calendar date, the day and the month of one or two digits) or a timestamp, and the
  date is not after today. Every real date written \<^verbatim>\<open>DD/MM/YYYY\<close> is such a string, and
  passes iff it is not after today; today's date passes. \<^verbatim>\<open>2000-01-01\<close> fails, and so
  does a value of any other type.
\<close>

theorem birth_date_predicate:
  "(is_valid_date today x \<longleftrightarrow>
      (\<exists>dt. ((\<exists>ds ms ys. x = Str (ds @ ''/'' @ ms @ ''/'' @ ys) \<and>
                 day_field ds = Some (day dt) \<and> month_field ms = Some (month dt) \<and>
                 year_field ys = Some (year dt) \<and>
                 valid_date (year dt) (month dt) (day dt)) \<or>
              (\<exists>h m s. x = Timestamp dt h m s)) \<and>
            date_le dt today)) \<and>
   (valid_date y m d \<longrightarrow>
      spec_ddmmyyyy (ddmmyyyy (Date y m d)) \<and>
      (is_valid_date today (Str (ddmmyyyy (Date y m d))) \<longleftrightarrow> date_le (Date y m d) today)) \<and>
   (valid_date (year today) (month today) (day today) \<longrightarrow>
      is_valid_date today (Str (ddmmyyyy today))) \<and>
   \<not> is_valid_date today (Str ''2000-01-01'') \<and>
   \<not> is_valid_date today (Integer i) \<and> \<not> is_valid_date today NaN \<and>
   \<not> is_valid_date today NaT"
proof -
  have a: "is_valid_date today x \<longleftrightarrow>
      (\<exists>dt. ((\<exists>ds ms ys. x = Str (ds @ ''/'' @ ms @ ''/'' @ ys) \<and>
                 day_field ds = Some (day dt) \<and> month_field ms = Some (month dt) \<and>
                 year_field ys = Some (year dt) \<and>
                 valid_date (year dt) (month dt) (day dt)) \<or>
              (\<exists>h m s. x = Timestamp dt h m s)) \<and>
            date_le dt today)"
    (is "?l \<longleftrightarrow> ?r")
  proof
    assume ?l
    then obtain dt where
      dt: "(\<exists>s. x = Str s \<and> strptime s = Some dt) \<or> (\<exists>h m s. x = Timestamp dt h m s)"
        "date_le dt today"
      unfolding is_valid_date_iff by blast
    from dt(1) show ?r
    proof
      assume "\<exists>s. x = Str s \<and> strptime s = Some dt"
      then obtain s where s: "x = Str s" "strptime s = Some dt" by blast
      from s(2) obtain ds ms ys d m y where
        g: "s = ds @ ''/'' @ ms @ ''/'' @ ys" "day_field ds = Some d" "month_field ms = Some m"
        "year_field ys = Some y" "valid_date y m d" "dt = Date y m d"
        unfolding strptime_Some_iff by blast
      from g(6) have h: "day dt = d" "month dt = m" "year dt = y" by simp_all
      from s(1) g(1-5) have "\<exists>ds ms ys. x = Str (ds @ ''/'' @ ms @ ''/'' @ ys) \<and>
                 day_field ds = Some (day dt) \<and> month_field ms = Some (month dt) \<and>
                 year_field ys = Some (year dt) \<and>
                 valid_date (year dt) (month dt) (day dt)"
        unfolding h by blast
      with dt(2) show ?r by blast
    next
      assume "\<exists>h m s. x = Timestamp dt h m s"
      with dt(2) show ?r by blast
    qed
  next
    assume ?r
    then obtain dt where
      dt: "(\<exists>ds ms ys. x = Str (ds @ ''/'' @ ms @ ''/'' @ ys) \<and>
                 day_field ds = Some (day dt) \<and> month_field ms = Some (month dt) \<and>
                 year_field ys = Some (year dt) \<and>
                 valid_date (year dt) (month dt) (day dt)) \<or>
              (\<exists>h m s. x = Timestamp dt h m s)" "date_le dt today"
      by blast
    from dt(1) show ?l
    proof
      assume "\<exists>ds ms ys. x = Str (ds @ ''/'' @ ms @ ''/'' @ ys) \<and>
                 day_field ds = Some (day dt) \<and> month_field ms = Some (month dt) \<and>
                 year_field ys = Some (year dt) \<and>
                 valid_date (year dt) (month dt) (day dt)"
      then obtain ds ms ys where
        f: "x = Str (ds @ ''/'' @ ms @ ''/'' @ ys)" "day_field ds = Some (day dt)"
          "month_field ms = Some (month dt)" "year_field ys = Some (year dt)"
          "valid_date (year dt) (month dt) (day dt)"
        by blast
      have "dt = Date (year dt) (month dt) (day dt)" by simp
      with f have "strptime (ds @ ''/'' @ ms @ ''/'' @ ys) = Some dt"
        unfolding strptime_Some_iff by blast
      with f(1) dt(2) show ?l unfolding is_valid_date_iff by blast
    next
      assume "\<exists>h m s. x = Timestamp dt h m s"
      with dt(2) show ?l unfolding is_valid_date_iff by blast
    qed
  qed
  have b: "valid_date y m d \<longrightarrow>
      spec_ddmmyyyy (ddmmyyyy (Date y m d)) \<and>
      (is_valid_date today (Str (ddmmyyyy (Date y m d))) \<longleftrightarrow> date_le (Date y m d) today)"
    by (simp add: spec_ddmmyyyy_ddmmyyyy strptime_ddmmyyyy)
  have c: "valid_date (year today) (month today) (day today) \<longrightarrow>
      is_valid_date today (Str (ddmmyyyy today))"
    using strptime_ddmmyyyy [of "year today" "month today" "day today"]
    by (simp add: date_le_refl)
  have e: "\<not> is_valid_date today (Str ''2000-01-01'')"
    by (simp add: strptime_iso_format)
  from a b c e show ?thesis by simp
qed

text \<open>Today, 4 November 2026, passes; tomorrow fails.\<close>

theorem birth_date_predicate_witness:
  "valid_date 2026 11 4 \<and> spec_ddmmyyyy (ddmmyyyy (Date 2026 11 4)) \<and>
   is_valid_date (Date 2026 11 4) (Str (ddmmyyyy (Date 2026 11 4))) \<and>
   ddmmyyyy (Date 2026 11 4) = ''04/11/2026'' \<and>
   valid_date 2026 11 5 \<and> \<not> date_le (Date 2026 11 5) (Date 2026 11 4) \<and>
   \<not> is_valid_date (Date 2026 11 4) (Str (ddmmyyyy (Date 2026 11 5)))"
proof -
  have v: "valid_date 2026 11 4" "valid_date 2026 11 5" by code_simp+
  have t: "ddmmyyyy (Date 2026 11 4) = ''04/11/2026''" by code_simp
  have n: "\<not> date_le (Date 2026 11 5) (Date 2026 11 4)" by code_simp
  have s: "year (Date 2026 11 4) = 2026" "month (Date 2026 11 4) = 11"
    "day (Date 2026 11 4) = 4" by simp_all
  from birth_date_predicate [of "Date 2026 11 4" NaN 2026 11 4 0]
    birth_date_predicate [of "Date 2026 11 4" NaN 2026 11 5 0] v t n
  show ?thesis unfolding s by blast
qed

subsection \<open>C7: the aggregation identities\<close>

text \<open>
  C7: for every batch \<^verbatim>\<open>total_invalid\<close> is six times the number of messy rows,
  \<^verbatim>\<open>messy_invalid\<close> is the sum of the six counts per field, and \<^verbatim>\<open>clean_invalid\<close> is
  their difference. With ten messy rows \<^verbatim>\<open>total_invalid\<close> is 60, and if the six counts add
  up to 15 then \<^verbatim>\<open>clean_invalid\<close> is 45.
\<close>

theorem aggregation_identity:
  "total_invalid (statistics messy_df clean_df tot) = int (length messy_df) * 6 \<and>
   messy_invalid (statistics messy_df clean_df tot) =
     invalid_kk (statistics messy_df clean_df tot) +
     invalid_nik (statistics messy_df clean_df tot) +
     invalid_name (statistics messy_df clean_df tot) +
     invalid_gender (statistics messy_df clean_df tot) +
     invalid_places (statistics messy_df clean_df tot) +
     invalid_date (statistics messy_df clean_df tot) \<and>
   clean_invalid (statistics messy_df clean_df tot) =
     total_invalid (statistics messy_df clean_df tot) -
     messy_invalid (statistics messy_df clean_df tot) \<and>
   (length messy_df = 10 \<longrightarrow>
      total_invalid (statistics messy_df clean_df tot) = 60 \<and>
      (messy_invalid (statistics messy_df clean_df tot) = 15 \<longrightarrow>
         clean_invalid (statistics messy_df clean_df tot) = 45))"
  using stats_ids [of messy_df clean_df tot] by (simp add: total_invalid_eq)

text \<open>
  The hypotheses hold of the messy frame \<^verbatim>\<open>clean_data\<close> makes of the example batch of a
  hundred rows (lemma \<open>example_clean_data\<close>): ten messy rows, five with two
  markers and five with one.
\<close>

theorem aggregation_identity_witness:
  "length example_messy = 10 \<and>
   total_invalid (statistics example_messy (replicate 90 ok_row) 100) = 60 \<and>
   messy_invalid (statistics example_messy (replicate 90 ok_row) 100) = 15 \<and>
   clean_invalid (statistics example_messy (replicate 90 ok_row) 100) = 45"
proof -
  have a: "length example_messy = 10" by (simp add: example_messy_def)
  have b: "messy_invalid (statistics example_messy (replicate 90 ok_row) 100) = 15"
    by code_simp
  from aggregation_identity [of example_messy "replicate 90 ok_row" 100] a b
  show ?thesis by simp
qed

subsection \<open>C8: the counts per field\<close>

text \<open>
  C8 says that each count found by searching the diagnostics for a field's marker is the
  number of messy rows on which that field's predicate fails. The clauses of four fields
  quote the cell, so a cell can bring a marker into the diagnostic: a row whose only fault
  is the gender \<^verbatim>\<open>Invalid NIK\<close> is counted as a row with an invalid \<^verbatim>\<open>NIK\<close>, while its
  \<^verbatim>\<open>NIK\<close> passes.
\<close>

theorem marker_in_cell_counted_as_invalid_nik:
  "clean_data (Date 2026 11 4) [''JAKARTA''] [marker_row] =
     Inr ([with_check_desc marker_row ''Invalid JENIS_KELAMIN (value: Invalid NIK); ''], []) \<and>
   is_valid_nik (NIK marker_row) \<and>
   invalid_nik (statistics
     [with_check_desc marker_row ''Invalid JENIS_KELAMIN (value: Invalid NIK); ''] [] 1) = 1"
proof -
  have a: "clean_data (Date 2026 11 4) [''JAKARTA''] [marker_row] =
     Inr ([with_check_desc marker_row ''Invalid JENIS_KELAMIN (value: Invalid NIK); ''], [])"
    by code_simp
  have b: "is_valid_nik (NIK marker_row)" by code_simp
  have c: "invalid_nik (statistics
     [with_check_desc marker_row ''Invalid JENIS_KELAMIN (value: Invalid NIK); ''] [] 1) = 1"
    by code_simp
  from a b c show ?thesis by blast
qed

subsection \<open>C9: the predicate on the name\<close>

text \<open>
  C9: a value passes \<^const>\<open>is_valid_custname\<close> iff it is a string and none of its
  characters is a digit (\<^verbatim>\<open>c.isdigit()\<close>). Punctuation and letters outside ASCII are
  accepted: \<^verbatim>\<open>Budi Santoso\<close> and \<^verbatim>\<open>O'Brien\<close> pass, \<^verbatim>\<open>Budi123\<close> fails.
\<close>

theorem custname_predicate:
  "(is_valid_custname x \<longleftrightarrow> (\<exists>s. x = Str s \<and> \<not> list_ex is_digit_char s)) \<and>
   is_valid_custname (Str ''Budi Santoso'') \<and>
   is_valid_custname (Str ''O'Brien'') \<and>
   is_valid_custname (Str [CHR ''J'', CHR 0xF6, CHR ''r'', CHR ''g'', CHR ''!'']) \<and>
   \<not> is_valid_custname (Str ''Budi123'') \<and>
   \<not> is_valid_custname (Integer 7) \<and> \<not> is_valid_custname NaN"
proof -
  have a: "is_valid_custname x \<longleftrightarrow> (\<exists>s. x = Str s \<and> \<not> list_ex is_digit_char s)"
    by (cases x) auto
  have b: "is_valid_custname (Str ''Budi Santoso'')" by code_simp
  have c: "is_valid_custname (Str ''O'Brien'')" by code_simp
  have d: "is_valid_custname (Str [CHR ''J'', CHR 0xF6, CHR ''r'', CHR ''g'', CHR ''!''])"
    by code_simp
  have e: "\<not> is_valid_custname (Str ''Budi123'')" by code_simp
  from a b c d e show ?thesis by simp
qed

subsection \<open>C10: the six fields are left as they are\<close>

text \<open>
  C10: whenever \<^verbatim>\<open>clean_data\<close> returns, the messy rows without their diagnostic are the
  input rows on which some predicate fails, in the order of the input, each messy row is
  its input row with the diagnostic added and nothing else changed, and the clean rows
  are the input rows on which all predicates hold, with no diagnostic column.
\<close>

theorem clean_data_keeps_fields:
  assumes "clean_data today kota df = Inr (messy, clean)"
  shows "map drop_check_desc messy = filter (\<lambda>r. \<not> all_valid today kota r) df \<and>
         clean = filter (all_valid today kota) df \<and>
         list_all (\<lambda>r. r = with_check_desc (drop_check_desc r) (Check_Desc r)) messy"
proof -
  note p = clean_data_partition [OF assms]
  have "map drop_check_desc messy = filter (\<lambda>r. \<not> all_valid today kota r) df"
    unfolding p(1) by (simp add: comp_def)
  moreover have "list_all (\<lambda>r. r = with_check_desc (drop_check_desc r) (Check_Desc r)) messy"
    unfolding p(1) by (simp add: list_all_iff)
  ultimately show ?thesis using p(2) by simp
qed

text \<open>A batch of a row that passes and a row whose name holds digits.\<close>

theorem clean_data_keeps_fields_witness:
  "clean_data (Date 2026 11 4) [''JAKARTA''] [ok_row, digit_name_row] =
     Inr ([with_check_desc digit_name_row
             ''Invalid CUSTNAME (contains special characters or digits: Budi123); ''],
          [ok_row]) \<and>
   map drop_check_desc [with_check_desc digit_name_row
       ''Invalid CUSTNAME (contains special characters or digits: Budi123); ''] =
     [digit_name_row] \<and>
   filter (\<lambda>r. \<not> all_valid (Date 2026 11 4) [''JAKARTA''] r) [ok_row, digit_name_row] =
     [digit_name_row] \<and>
   filter (all_valid (Date 2026 11 4) [''JAKARTA'']) [ok_row, digit_name_row] = [ok_row]"
proof -
  have a: "clean_data (Date 2026 11 4) [''JAKARTA''] [ok_row, digit_name_row] =
     Inr ([with_check_desc digit_name_row
             ''Invalid CUSTNAME (contains special characters or digits: Budi123); ''],
          [ok_row])"
    by code_simp
  from clean_data_keeps_fields [OF a] a show ?thesis by simp
qed

end
